theory Spec2Isabelle
  imports Main "HOL-Library.AList"
begin

section \<open>Values, exceptions and effects\<close>

text \<open>
  The program is \<^verbatim>\<open>src/main.py\<close>, a Flask view that drives HTTP calls, two shell
  scripts, log files and an SMTP session. A Python \<^verbatim>\<open>str\<close> is modelled as the list of
  its code points, for code points below 256 (\<^typ>\<open>string\<close>); \<^verbatim>\<open>bytes\<close> as the list
  of its bytes (\<^typ>\<open>string\<close> too).
\<close>

text \<open>
  A parsed JSON document, as \<^verbatim>\<open>request.json\<close> and \<^verbatim>\<open>response.json()\<close> return it.
  \<open>JObj\<close> holds the items of the Python dict (each key once); numbers are integers.
\<close>

datatype json =
    JNull
  | JBool bool
  | JInt int
  | JStr string
  | JArr "json list"
  | JObj "(string \<times> json) list"

text \<open>The exceptions the program can meet, by class. All derive from \<^verbatim>\<open>Exception\<close>.\<close>

datatype py_error =
    NameError string
  | KeyError string
  | TypeError
  | AttributeError
  | CalledProcessError int "string option"
  | OSError string
  | RequestException string
  | HTTPError int
  | JSONDecodeError
  | JWTError string
  | SMTPException string

record response =
  status_code :: int
  json_body :: "py_error + json"

record completed_process =
  returncode :: int
  stdout :: string
  stderr :: string

record email_message =
  msg_from :: string
  msg_to :: string
  msg_subject :: string
  msg_body :: string
  attachment_name :: string
  attachment_payload :: string

text \<open>What the program does to the outside world, in the order it does it.\<close>

datatype effect =
    HttpPost string "(string \<times> string) list" "json option"
  | OpenWrite string
  | FileWrite string string
  | Subprocess "string list" "string option"
  | OpenRead string
  | SmtpConnect string string
  | SmtpStarttls
  | SmtpLogin string string
  | SmtpSendmail string string email_message
  | SmtpQuit
  | LogInfo string
  | LogError string
  | LogException string py_error

text \<open>
  The process configuration (the module-level names read from the environment at
  start-up) together with the answers of the outside world: the clock, the libraries
  whose results the program only passes on, the HTTP peer, the file system, the two
  scripts and the mail relay. \<open>hmac_digest key msg\<close> is the raw HMAC-SHA256 digest,
  \<open>py_repr\<close> is Python's text for a list or a dict.
\<close>

record world =
  WEBHOOK_SECRET :: string
  APP_ID :: string
  private_key :: string
  SMTP_SERVER :: string
  SMTP_PORT :: string
  SMTP_USERNAME :: string
  SMTP_PASSWORD :: string
  RECIPIENT_EMAIL :: string
  hmac_digest :: "string \<Rightarrow> string \<Rightarrow> string"
  time_now :: int
  jwt_encode :: "(string \<times> json) list \<Rightarrow> string \<Rightarrow> string \<Rightarrow> py_error + string"
  py_repr :: "json \<Rightarrow> string"
  requests_post :: "string \<Rightarrow> (string \<times> string) list \<Rightarrow> json option \<Rightarrow> py_error + response"
  open_write :: "string \<Rightarrow> py_error option"
  file_write :: "string \<Rightarrow> string \<Rightarrow> py_error option"
  run_process :: "string list \<Rightarrow> py_error + completed_process"
  read_file :: "string \<Rightarrow> py_error + string"
  smtp_connect :: "string \<Rightarrow> string \<Rightarrow> py_error option"
  smtp_starttls :: "py_error option"
  smtp_login :: "string \<Rightarrow> string \<Rightarrow> py_error option"
  smtp_sendmail :: "string \<Rightarrow> string \<Rightarrow> email_message \<Rightarrow> py_error option"
  smtp_quit :: "py_error option"

text \<open>
  A computation yields the effects it performed and either the exception it raised
  (\<open>Inl\<close>) or its value (\<open>Inr\<close>).
\<close>

type_synonym 'a io = "effect list \<times> (py_error + 'a)"

definition ret :: "'a \<Rightarrow> 'a io" where
  "ret a = ([], Inr a)"

definition raise :: "py_error \<Rightarrow> 'a io" where
  "raise e = ([], Inl e)"

definition bind_io :: "'a io \<Rightarrow> ('a \<Rightarrow> 'b io) \<Rightarrow> 'b io" where
  "bind_io m f =
     (case snd m of
        Inl e \<Rightarrow> (fst m, Inl e)
      | Inr a \<Rightarrow> (fst m @ fst (f a), snd (f a)))"

text \<open>\<open>perform x r\<close>: the call \<open>x\<close> is made and the world answers \<open>r\<close>.\<close>

definition perform :: "effect \<Rightarrow> py_error + 'a \<Rightarrow> 'a io" where
  "perform x r = ([x], r)"

definition pure_call :: "py_error + 'a \<Rightarrow> 'a io" where
  "pure_call r = ([], r)"

definition outcome :: "py_error option \<Rightarrow> py_error + unit" where
  "outcome r = (case r of None \<Rightarrow> Inr () | Some e \<Rightarrow> Inl e)"

text \<open>
  \<^verbatim>\<open>try: body except C as e: handler\<close>. The handler answers \<open>None\<close> for an exception
  that is not of class \<^verbatim>\<open>C\<close>, which then propagates.
\<close>

definition try_except :: "'a io \<Rightarrow> (py_error \<Rightarrow> 'a io option) \<Rightarrow> 'a io" where
  "try_except body handler =
     (case snd body of
        Inr a \<Rightarrow> body
      | Inl e \<Rightarrow>
          (case handler e of
             None \<Rightarrow> body
           | Some h \<Rightarrow> (fst body @ fst h, snd h)))"

section \<open>Library functions the program calls\<close>

text \<open>
  \<^verbatim>\<open>str(v)\<close>, which an f-string applies to each value it interpolates: decimal digits
  for an integer, the text itself for a string.
\<close>

fun str_nat :: "nat \<Rightarrow> string" where
  "str_nat n =
     (if n < 10 then [''0123456789'' ! n]
      else str_nat (n div 10) @ [''0123456789'' ! (n mod 10)])"

declare str_nat.simps [simp del]

definition str_int :: "int \<Rightarrow> string" where
  "str_int i = (if i < 0 then ''-'' @ str_nat (nat (- i)) else str_nat (nat i))"

definition py_str :: "world \<Rightarrow> json \<Rightarrow> string" where
  "py_str w v =
     (case v of
        JNull \<Rightarrow> ''None''
      | JBool b \<Rightarrow> (if b then ''True'' else ''False'')
      | JInt i \<Rightarrow> str_int i
      | JStr s \<Rightarrow> s
      | _ \<Rightarrow> py_repr w v)"

definition is_ascii :: "string \<Rightarrow> bool" where
  "is_ascii s = list_all (\<lambda>c. (of_char c :: nat) < 128) s"

text \<open>
  \<^verbatim>\<open>hmac.compare_digest(a, b)\<close> on two \<^verbatim>\<open>str\<close>: both must be ASCII, else it raises
  \<^verbatim>\<open>TypeError\<close>.
\<close>

definition compare_digest :: "string \<Rightarrow> string \<Rightarrow> py_error + bool" where
  "compare_digest a b =
     (if is_ascii a \<and> is_ascii b then Inr (a = b) else Inl TypeError)"

definition hex_digit :: "nat \<Rightarrow> char" where
  "hex_digit n = ''0123456789abcdef'' ! (n mod 16)"

definition hex_byte :: "char \<Rightarrow> string" where
  "hex_byte c = [hex_digit ((of_char c :: nat) div 16), hex_digit (of_char c :: nat)]"

text \<open>\<^verbatim>\<open>mac.hexdigest()\<close>: two lower-case hexadecimal digits for each digest byte.\<close>

definition hexdigest :: "string \<Rightarrow> string" where
  "hexdigest bs = concat (map hex_byte bs)"

text \<open>\<^verbatim>\<open>str.encode()\<close>, UTF-8, on code points below 256.\<close>

definition encode_char :: "char \<Rightarrow> string" where
  "encode_char c =
     (if (of_char c :: nat) < 128 then [c]
      else [char_of (192 + (of_char c :: nat) div 64), char_of (128 + (of_char c :: nat) mod 64)])"

definition encode :: "string \<Rightarrow> string" where
  "encode s = concat (map encode_char s)"

text \<open>
  Reading a JSON value the way the program does: \<^verbatim>\<open>d.get(k)\<close>, \<^verbatim>\<open>k in d\<close> and \<^verbatim>\<open>d[k]\<close>
  with a string key. Only a dict has \<^verbatim>\<open>get\<close>; a subscript with a string key raises
  \<^verbatim>\<open>KeyError\<close> on a dict without the key and \<^verbatim>\<open>TypeError\<close> on anything else.
\<close>

fun py_get :: "json \<Rightarrow> string \<Rightarrow> py_error + json" where
  "py_get (JObj kvs) k = (case map_of kvs k of None \<Rightarrow> Inr JNull | Some v \<Rightarrow> Inr v)"
| "py_get _ k = Inl AttributeError"

fun py_getitem :: "json \<Rightarrow> string \<Rightarrow> py_error + json" where
  "py_getitem (JObj kvs) k = (case map_of kvs k of None \<Rightarrow> Inl (KeyError k) | Some v \<Rightarrow> Inr v)"
| "py_getitem _ k = Inl TypeError"

fun py_in :: "string \<Rightarrow> json \<Rightarrow> bool" where
  "py_in k (JObj kvs) = (map_of kvs k \<noteq> None)"
| "py_in k _ = False"

section \<open>Signature check\<close>

text \<open>
  \<^verbatim>\<open>verify_signature(payload, signature)\<close>, lines 47-52. \<^verbatim>\<open>not signature\<close> holds for
  a missing header (\<open>None\<close>) and for the empty string.
\<close>

definition verify_signature :: "world \<Rightarrow> string \<Rightarrow> string option \<Rightarrow> py_error + bool" where
  "verify_signature w payload signature =
     (case signature of
        None \<Rightarrow> Inr False
      | Some s \<Rightarrow>
          if s = [] then Inr False
          else compare_digest
                 (''sha256='' @ hexdigest (hmac_digest w (encode (WEBHOOK_SECRET w)) payload)) s)"

text \<open>\<^verbatim>\<open>logger.info\<close>, \<^verbatim>\<open>logger.error\<close>: they write a record and never raise.\<close>

definition logger_info :: "string \<Rightarrow> unit io" where
  "logger_info m = perform (LogInfo m) (Inr ())"

definition logger_error :: "string \<Rightarrow> unit io" where
  "logger_error m = perform (LogError m) (Inr ())"

definition logger_exception :: "string \<Rightarrow> py_error \<Rightarrow> unit io" where
  "logger_exception m e = perform (LogException m e) (Inr ())"

section \<open>Credential provider\<close>

text \<open>
  \<^verbatim>\<open>get_jwt_token()\<close>, lines 54-63. \<open>time_now\<close> is \<^verbatim>\<open>int(time.time())\<close>; the key is the
  module-level \<^verbatim>\<open>private_key\<close>, loaded at lines 40-45 when the module is imported.
\<close>

definition get_jwt_token :: "world \<Rightarrow> string io" where
  "get_jwt_token w =
     (let current_time = time_now w;
          payload = [(''iat'', JInt current_time),
                     (''exp'', JInt (current_time + 10 * 60)),
                     (''iss'', JStr (APP_ID w))]
      in pure_call (jwt_encode w payload (private_key w) ''RS256''))"

text \<open>\<^verbatim>\<open>response.raise_for_status()\<close>: an exception for a 4xx or 5xx status.\<close>

definition raise_for_status :: "response \<Rightarrow> unit io" where
  "raise_for_status r =
     (if 400 \<le> status_code r \<and> status_code r < 600 then raise (HTTPError (status_code r))
      else ret ())"

definition post :: "world \<Rightarrow> string \<Rightarrow> (string \<times> string) list \<Rightarrow> json option \<Rightarrow> response io" where
  "post w url headers body = perform (HttpPost url headers body) (requests_post w url headers body)"

text \<open>\<^verbatim>\<open>get_installation_access_token(installation_id)\<close>, lines 65-77.\<close>

definition get_installation_access_token :: "world \<Rightarrow> json \<Rightarrow> json io" where
  "get_installation_access_token w installation_id =
     bind_io (get_jwt_token w) (\<lambda>jwt_token.
     let headers = [(''Authorization'', ''Bearer '' @ jwt_token),
                    (''Accept'', ''application/vnd.github.v3+json'')]
     in
     bind_io (post w (''https://api.github.com/app/installations/'' @ py_str w installation_id
                        @ ''/access_tokens'') headers None) (\<lambda>response.
     bind_io (raise_for_status response) (\<lambda>_.
     bind_io (pure_call (json_body response)) (\<lambda>j.
     pure_call (py_getitem j ''token'')))))"

section \<open>Notifier\<close>

text \<open>
  A step report: the \<^verbatim>\<open>details\<close> dict in insertion order, each step with its
  \<^verbatim>\<open>status\<close> and its \<^verbatim>\<open>message\<close> (a \<^verbatim>\<open>str\<close>, or \<^verbatim>\<open>None\<close> for the \<^verbatim>\<open>stderr\<close> of a process
  whose error stream was not captured).
\<close>

type_synonym details = "(string \<times> string \<times> string option) list"

definition fmt :: "string option \<Rightarrow> string" where
  "fmt v = (case v of None \<Rightarrow> ''None'' | Some s \<Rightarrow> s)"

definition table_row :: "string \<times> string \<times> string option \<Rightarrow> string" where
  "table_row r =
     (case r of (step, status, message) \<Rightarrow>
        ''| '' @ step @ '' | '' @ status @ '' | '' @ fmt message @ '' |\<newline>'')"

definition render_table :: "details \<Rightarrow> string" where
  "render_table ds =
     ''| Step | Status | Details |\<newline>|------|--------|---------|\<newline>''
       @ concat (map table_row ds)"

text \<open>
  \<^verbatim>\<open>notify_stakeholders(comment_url, message, access_token, details=None)\<close>, lines
  141-154. \<^verbatim>\<open>if details:\<close> holds for a dict with an entry. The error branch formats
  \<^verbatim>\<open>response.json()\<close> into the log line, which raises when the body is not JSON.
\<close>

definition comment_headers :: "world \<Rightarrow> json \<Rightarrow> (string \<times> string) list" where
  "comment_headers w access_token =
     [(''Authorization'', ''token '' @ py_str w access_token),
      (''Accept'', ''application/vnd.github.v3+json'')]"

definition comment_text :: "string \<Rightarrow> details option \<Rightarrow> string" where
  "comment_text message details =
     (case details of
        Some (d # ds) \<Rightarrow> message @ ''\<newline>\<newline>'' @ render_table (d # ds)
      | _ \<Rightarrow> message)"

definition notify_stakeholders ::
  "world \<Rightarrow> string \<Rightarrow> string \<Rightarrow> json \<Rightarrow> details option \<Rightarrow> unit io" where
  "notify_stakeholders w comment_url message access_token details =
     (let headers = comment_headers w access_token;
          data = JObj [(''body'', JStr (comment_text message details))]
      in
      bind_io (post w comment_url headers (Some data)) (\<lambda>response.
      if status_code response \<noteq> 201 then
        bind_io (pure_call (json_body response)) (\<lambda>j.
        logger_error (''Failed to comment on PR: '' @ py_str w j))
      else ret ()))"

text \<open>
  \<^verbatim>\<open>send_email(to_address, subject, body, attachment_path)\<close>, lines 204-225. The
  message is kept structured: sender, recipient, subject, text part, and the attachment
  with its file name (\<^verbatim>\<open>os.path.basename\<close>) and content.
\<close>

definition basename :: "string \<Rightarrow> string" where
  "basename p = rev (takeWhile (\<lambda>c. c \<noteq> CHR ''/'') (rev p))"

definition mime_message :: "world \<Rightarrow> string \<Rightarrow> string \<Rightarrow> string \<Rightarrow> string \<Rightarrow> string \<Rightarrow> email_message" where
  "mime_message w to_address subject body attachment_path content =
     \<lparr>msg_from = SMTP_USERNAME w, msg_to = to_address, msg_subject = subject,
      msg_body = body, attachment_name = basename attachment_path,
      attachment_payload = content\<rparr>"

definition send_email :: "world \<Rightarrow> string \<Rightarrow> string \<Rightarrow> string \<Rightarrow> string \<Rightarrow> unit io" where
  "send_email w to_address subject body attachment_path =
     (let from_address = SMTP_USERNAME w in
      bind_io (perform (OpenRead attachment_path) (read_file w attachment_path)) (\<lambda>content.
      let msg = mime_message w to_address subject body attachment_path content in
      bind_io (perform (SmtpConnect (SMTP_SERVER w) (SMTP_PORT w))
                 (outcome (smtp_connect w (SMTP_SERVER w) (SMTP_PORT w)))) (\<lambda>_.
      bind_io (perform SmtpStarttls (outcome (smtp_starttls w))) (\<lambda>_.
      bind_io (perform (SmtpLogin from_address (SMTP_PASSWORD w))
                 (outcome (smtp_login w from_address (SMTP_PASSWORD w)))) (\<lambda>_.
      bind_io (perform (SmtpSendmail from_address to_address msg)
                 (outcome (smtp_sendmail w from_address to_address msg))) (\<lambda>_.
      perform SmtpQuit (outcome (smtp_quit w))))))))"

section \<open>Action runner\<close>

text \<open>
  \<^verbatim>\<open>\s\<close> in a \<^verbatim>\<open>str\<close> pattern is \<^verbatim>\<open>str.isspace\<close>: below 256 these are the code points
  9-13, 28-32, 133 and 160.
\<close>

definition is_space :: "char \<Rightarrow> bool" where
  "is_space c =
     (let n = (of_char c :: nat) in (9 \<le> n \<and> n \<le> 13) \<or> (28 \<le> n \<and> n \<le> 32) \<or> n = 133 \<or> n = 160)"

text \<open>
  \<^verbatim>\<open>re.search\<close> for a pattern \<^verbatim>\<open>lit(g[^\s]+)\<close> with literal texts \<open>lit\<close> and \<open>g\<close>: the
  leftmost position where \<open>lit\<close>, \<open>g\<close> and at least one non-space character follow
  each other; the value is group 1, \<open>g\<close> and the longest run of non-space characters.
\<close>

fun re_search :: "string \<Rightarrow> string \<Rightarrow> string \<Rightarrow> string option" where
  "re_search lit g [] = None"
| "re_search lit g (c # cs) =
     (let tok = takeWhile (\<lambda>x. \<not> is_space x) (drop (length (lit @ g)) (c # cs)) in
      if take (length (lit @ g)) (c # cs) = lit @ g \<and> tok \<noteq> [] then Some (g @ tok)
      else re_search lit g cs)"

text \<open>
  \<^verbatim>\<open>subprocess.run(args, check=True, ...)\<close>. An argument that is not a string raises
  \<^verbatim>\<open>TypeError\<close> before any process starts; a non-zero exit raises
  \<^verbatim>\<open>CalledProcessError\<close>, whose \<^verbatim>\<open>stderr\<close> is the captured text, or \<^verbatim>\<open>None\<close> when the
  streams go to a file (\<open>redirect\<close>).
\<close>

fun arg_strings :: "json list \<Rightarrow> string list option" where
  "arg_strings [] = Some []"
| "arg_strings (JStr s # xs) = (case arg_strings xs of None \<Rightarrow> None | Some ys \<Rightarrow> Some (s # ys))"
| "arg_strings (_ # xs) = None"

definition subprocess_run :: "world \<Rightarrow> json list \<Rightarrow> string option \<Rightarrow> completed_process io" where
  "subprocess_run w args redirect =
     (case arg_strings args of
        None \<Rightarrow> raise TypeError
      | Some argv \<Rightarrow>
          bind_io (perform (Subprocess argv redirect) (run_process w argv)) (\<lambda>p.
          if returncode p \<noteq> 0
          then raise (CalledProcessError (returncode p)
                        (if redirect = None then Some (stderr p) else None))
          else ret p))"

text \<open>
  A name that is neither a parameter nor a local of the running function, and that no
  module-level statement assigns: reading it raises \<^verbatim>\<open>NameError\<close>.
\<close>

definition unbound_name :: "string \<Rightarrow> 'a io" where
  "unbound_name n = raise (NameError n)"

definition write_log :: "world \<Rightarrow> string \<Rightarrow> string \<Rightarrow> unit io" where
  "write_log w path text = perform (FileWrite path text) (outcome (file_write w path text))"

text \<open>The five entries of lines 171-175, added to the empty dict in this order.\<close>

definition deployment_details :: "world \<Rightarrow> json \<Rightarrow> string option \<Rightarrow> string option \<Rightarrow> details" where
  "deployment_details w branch_name container_name deployment_url =
     AList.update ''Run Docker container''
       (''Success'', Some (''Container '' @ fmt container_name @ '' running at ''
                             @ fmt deployment_url @ ''.''))
    (AList.update ''Build Docker image''
       (''Success'', Some (''Docker image built successfully for container ''
                             @ fmt container_name @ ''.''))
    (AList.update ''Pull latest changes''
       (''Success'', Some (''Pulled latest changes for branch '' @ py_str w branch_name @ ''.''))
    (AList.update ''Checkout branch''
       (''Success'', Some (''Checked out branch '' @ py_str w branch_name @ ''.''))
    (AList.update ''Clone repository''
       (''Success'', Some ''Repository cloned successfully.'') []))))"

text \<open>
  \<^verbatim>\<open>run_deployment_script(branch_name, pr_number)\<close>, lines 156-185. Both calls of the
  notifier (lines 177 and 184) read \<^verbatim>\<open>comment_url\<close> and \<^verbatim>\<open>access_token\<close>, which are
  locals of \<^verbatim>\<open>webhook\<close> only.
\<close>

definition run_deployment_script ::
  "world \<Rightarrow> json \<Rightarrow> json \<Rightarrow> (string option \<times> string option \<times> string) io" where
  "run_deployment_script w branch_name pr_number =
     (let log_file_path = ''/tmp/deployment_log_'' @ py_str w branch_name @ ''_''
                            @ py_str w pr_number @ ''.txt''
      in
      bind_io (perform (OpenWrite log_file_path) (outcome (open_write w log_file_path))) (\<lambda>_.
      try_except
        (bind_io (subprocess_run w [JStr ''./deploy.sh'', branch_name, JStr (py_str w pr_number)]
                    None) (\<lambda>result.
         bind_io (write_log w log_file_path (stdout result)) (\<lambda>_.
         bind_io (logger_info (stdout result)) (\<lambda>_.
         let container_name = re_search ''Container name: '' [] (stdout result);
             deployment_url = re_search ''Deployment complete: '' ''http://'' (stdout result);
             details = deployment_details w branch_name container_name deployment_url
         in
         bind_io (unbound_name ''comment_url'') (\<lambda>comment_url.
         bind_io (unbound_name ''access_token'') (\<lambda>access_token.
         bind_io (notify_stakeholders w comment_url ''Deployment process details:''
                    access_token (Some details)) (\<lambda>_.
         ret (container_name, deployment_url, log_file_path))))))))
        (\<lambda>e. case e of
           CalledProcessError rc err \<Rightarrow> Some
             (bind_io (write_log w log_file_path
                         (''Deployment script failed with error: '' @ fmt err)) (\<lambda>_.
              bind_io (logger_error (''Deployment script failed with error: '' @ fmt err)) (\<lambda>_.
              let details = AList.update ''Deployment script'' (''Failed'', err) [] in
              bind_io (unbound_name ''comment_url'') (\<lambda>comment_url.
              bind_io (unbound_name ''access_token'') (\<lambda>access_token.
              bind_io (notify_stakeholders w comment_url ''Deployment process details:''
                         access_token (Some details)) (\<lambda>_.
              ret (None, None, log_file_path)))))))
         | _ \<Rightarrow> None)))"

text \<open>
  \<^verbatim>\<open>run_cleanup_script(branch_name, pr_number)\<close>, lines 187-202: the script's streams go
  to the log file; lines 195 and 201 read the same two unbound names.
\<close>

definition run_cleanup_script :: "world \<Rightarrow> json \<Rightarrow> json \<Rightarrow> string io" where
  "run_cleanup_script w branch_name pr_number =
     (let log_file_path = ''/tmp/cleanup_log_'' @ py_str w branch_name @ ''_''
                            @ py_str w pr_number @ ''.txt''
      in
      bind_io (perform (OpenWrite log_file_path) (outcome (open_write w log_file_path))) (\<lambda>_.
      try_except
        (bind_io (subprocess_run w [JStr ''./cleanup.sh'', branch_name, JStr (py_str w pr_number)]
                    (Some log_file_path)) (\<lambda>_.
         bind_io (logger_info ''Cleanup script executed successfully.'') (\<lambda>_.
         let details = AList.update ''Cleanup script''
                         (''Success'', Some ''Cleanup script executed successfully.'') []
         in
         bind_io (unbound_name ''comment_url'') (\<lambda>comment_url.
         bind_io (unbound_name ''access_token'') (\<lambda>access_token.
         bind_io (notify_stakeholders w comment_url ''Cleanup process details:''
                    access_token (Some details)) (\<lambda>_.
         ret log_file_path))))))
        (\<lambda>e. case e of
           CalledProcessError rc err \<Rightarrow> Some
             (bind_io (write_log w log_file_path
                         (''Cleanup script failed with error: '' @ fmt err)) (\<lambda>_.
              bind_io (logger_error (''Cleanup script failed with error: '' @ fmt err)) (\<lambda>_.
              let details = AList.update ''Cleanup script'' (''Failed'', err) [] in
              bind_io (unbound_name ''comment_url'') (\<lambda>comment_url.
              bind_io (unbound_name ''access_token'') (\<lambda>access_token.
              bind_io (notify_stakeholders w comment_url ''Cleanup process details:''
                         access_token (Some details)) (\<lambda>_.
              ret log_file_path))))))
         | _ \<Rightarrow> None)))"

section \<open>Webhook dispatcher\<close>

record request =
  data :: string
  signature_header :: "string option"
  json :: json

text \<open>\<^verbatim>\<open>jsonify({'message': m}), code\<close>.\<close>

type_synonym reply = "json \<times> nat"

definition jsonify_message :: "string \<Rightarrow> nat \<Rightarrow> reply" where
  "jsonify_message m code = (JObj [(''message'', JStr m)], code)"

fun py_path :: "json \<Rightarrow> string list \<Rightarrow> py_error + json" where
  "py_path v [] = Inr v"
| "py_path v (k # ks) = (case py_getitem v k of Inl e \<Rightarrow> Inl e | Inr v' \<Rightarrow> py_path v' ks)"

text \<open>Lines 107-110: the final comment of the deploy path.\<close>

definition deployment_message :: "string option \<Rightarrow> string" where
  "deployment_message deployment_link =
     (case deployment_link of
        None \<Rightarrow> ''Deployment failed. Please check the logs.''
      | Some l \<Rightarrow>
          if l \<noteq> [] then ''Deployment successful. [Deployed application]('' @ l @ '').''
          else ''Deployment failed. Please check the logs.'')"

text \<open>Lines 106-116: what the dispatcher does with the value of the deployment script.\<close>

definition deploy_report ::
  "world \<Rightarrow> string \<Rightarrow> json \<Rightarrow> string option \<times> string option \<times> string \<Rightarrow> reply io" where
  "deploy_report w comment_url access_token r =
     (case r of (container_name, deployment_link, log_file_path) \<Rightarrow>
        bind_io (notify_stakeholders w comment_url (deployment_message deployment_link)
                   access_token None) (\<lambda>_.
        bind_io (send_email w (RECIPIENT_EMAIL w) ''Deployment Log''
                   ''Please find the attached deployment log.'' log_file_path) (\<lambda>_.
        ret (jsonify_message ''Deployment processed'' 200))))"

text \<open>Lines 117-119 and 135-137: the two \<^verbatim>\<open>except Exception as e\<close> handlers.\<close>

definition deployment_failed :: "py_error \<Rightarrow> reply io option" where
  "deployment_failed e =
     Some (bind_io (logger_exception ''Deployment failed: '' e) (\<lambda>_.
           ret (jsonify_message ''Deployment failed'' 500)))"

definition cleanup_failed :: "py_error \<Rightarrow> reply io option" where
  "cleanup_failed e =
     Some (bind_io (logger_exception ''Cleanup failed: '' e) (\<lambda>_.
           ret (jsonify_message ''Cleanup failed'' 500)))"

text \<open>Lines 95-119: the deploy path.\<close>

definition deploy_path :: "world \<Rightarrow> json \<Rightarrow> json \<Rightarrow> json \<Rightarrow> json \<Rightarrow> reply io" where
  "deploy_path w repo_name pr_number branch_name installation_id =
     try_except
       (bind_io (get_installation_access_token w installation_id) (\<lambda>access_token.
        let comment_url = ''https://api.github.com/repos/'' @ py_str w repo_name @ ''/issues/''
                            @ py_str w pr_number @ ''/comments''
        in
        bind_io (notify_stakeholders w comment_url ''Deployment started for this pull request.''
                   access_token None) (\<lambda>_.
        bind_io (run_deployment_script w branch_name pr_number) (\<lambda>r.
        deploy_report w comment_url access_token r))))
       deployment_failed"

text \<open>Lines 126-134: what the dispatcher does with the value of the cleanup script.\<close>

definition cleanup_report :: "world \<Rightarrow> json \<Rightarrow> json \<Rightarrow> json \<Rightarrow> string \<Rightarrow> reply io" where
  "cleanup_report w repo_name pr_number installation_id log_file_path =
     bind_io (get_installation_access_token w installation_id) (\<lambda>access_token.
     let comment_url = ''https://api.github.com/repos/'' @ py_str w repo_name @ ''/issues/''
                         @ py_str w pr_number @ ''/comments''
     in
     bind_io (notify_stakeholders w comment_url ''Cleanup completed for this pull request.''
                access_token None) (\<lambda>_.
     bind_io (send_email w (RECIPIENT_EMAIL w) ''Cleanup Log''
                ''Please find the attached cleanup log.'' log_file_path) (\<lambda>_.
     ret (jsonify_message ''Cleanup processed'' 200))))"

text \<open>Lines 122-137: the cleanup path.\<close>

definition cleanup_path :: "world \<Rightarrow> json \<Rightarrow> json \<Rightarrow> json \<Rightarrow> json \<Rightarrow> reply io" where
  "cleanup_path w repo_name pr_number branch_name installation_id =
     try_except
       (bind_io (run_cleanup_script w branch_name pr_number) (\<lambda>log_file_path.
        cleanup_report w repo_name pr_number installation_id log_file_path))
       cleanup_failed"

text \<open>
  \<^verbatim>\<open>webhook()\<close>, lines 80-139, on a request whose body Flask has parsed as JSON. An
  exception that leaves the view (\<open>Inl\<close>) is answered by Flask with status 500.
\<close>

definition webhook :: "world \<Rightarrow> request \<Rightarrow> reply io" where
  "webhook w req =
     bind_io (pure_call (verify_signature w (data req) (signature_header req))) (\<lambda>valid.
     if \<not> valid then ret (jsonify_message ''Invalid signature'' 401)
     else
       bind_io (pure_call (py_get (json req) ''action'')) (\<lambda>action.
       if py_in ''pull_request'' (json req) then
         bind_io (pure_call (py_path (json req) [''pull_request'', ''number''])) (\<lambda>pr_number.
         bind_io (pure_call (py_path (json req) [''repository'', ''full_name''])) (\<lambda>repo_name.
         bind_io (pure_call (py_path (json req) [''pull_request'', ''head'', ''ref''])) (\<lambda>branch_name.
         bind_io (pure_call (py_path (json req) [''installation'', ''id''])) (\<lambda>installation_id.
         if action \<in> set [JStr ''opened'', JStr ''synchronize'', JStr ''reopened'']
         then deploy_path w repo_name pr_number branch_name installation_id
         else if action = JStr ''closed''
         then cleanup_path w repo_name pr_number branch_name installation_id
         else ret (jsonify_message ''No action taken'' 200)))))
       else ret (jsonify_message ''No action taken'' 200)))"

definition http_status :: "reply io \<Rightarrow> nat" where
  "http_status r = (case snd r of Inl e \<Rightarrow> 500 | Inr (body, code) \<Rightarrow> code)"

section \<open>Observations on a run\<close>

definition raises :: "'a io \<Rightarrow> bool" where
  "raises m = (case snd m of Inl e \<Rightarrow> True | Inr a \<Rightarrow> False)"

text \<open>The steps of the SMTP session.\<close>

fun is_mail :: "effect \<Rightarrow> bool" where
  "is_mail (SmtpConnect h p) = True"
| "is_mail SmtpStarttls = True"
| "is_mail (SmtpLogin u p) = True"
| "is_mail (SmtpSendmail a b m) = True"
| "is_mail SmtpQuit = True"
| "is_mail _ = False"

text \<open>The text of a comment submitted with \<^verbatim>\<open>json={'body': text}\<close>.\<close>

fun comment_of :: "effect \<Rightarrow> string option" where
  "comment_of (HttpPost url hs (Some (JObj [(k, JStr m)]))) = (if k = ''body'' then Some m else None)"
| "comment_of _ = None"

definition posted_comments :: "effect list \<Rightarrow> string list" where
  "posted_comments t = List.map_filter comment_of t"

text \<open>The POST that submits a comment, and what the world answers to it.\<close>

definition comment_post :: "world \<Rightarrow> string \<Rightarrow> string \<Rightarrow> json \<Rightarrow> details option \<Rightarrow> effect" where
  "comment_post w comment_url message access_token details =
     HttpPost comment_url (comment_headers w access_token)
       (Some (JObj [(''body'', JStr (comment_text message details))]))"

definition comment_response ::
  "world \<Rightarrow> string \<Rightarrow> string \<Rightarrow> json \<Rightarrow> details option \<Rightarrow> py_error + response" where
  "comment_response w comment_url message access_token details =
     requests_post w comment_url (comment_headers w access_token)
       (Some (JObj [(''body'', JStr (comment_text message details))]))"

text \<open>
  An effect that is neither a step of the SMTP session nor a comment; and an effect that
  is either of that kind or the comment that announces the start of a deployment.
\<close>

definition quiet :: "effect \<Rightarrow> bool" where
  "quiet x = (\<not> is_mail x \<and> comment_of x = None)"

definition start_notice :: "effect \<Rightarrow> bool" where
  "start_notice x =
     (\<not> is_mail x
      \<and> (comment_of x = None \<or> comment_of x = Some ''Deployment started for this pull request.''))"

text \<open>
  A payload with the keys the dispatcher reads once it has found \<^verbatim>\<open>pull_request\<close>:
  \<^verbatim>\<open>pull_request.number\<close>, \<^verbatim>\<open>repository.full_name\<close>, \<^verbatim>\<open>pull_request.head.ref\<close> and
  \<^verbatim>\<open>installation.id\<close>.
\<close>

definition pull_request_event :: "json \<Rightarrow> bool" where
  "pull_request_event d =
     (py_in ''pull_request'' d
      \<and> \<not> isl (py_path d [''pull_request'', ''number''])
      \<and> \<not> isl (py_path d [''repository'', ''full_name''])
      \<and> \<not> isl (py_path d [''pull_request'', ''head'', ''ref''])
      \<and> \<not> isl (py_path d [''installation'', ''id'']))"

text \<open>The signature header GitHub computes for a body under the configured secret.\<close>

definition expected_signature :: "world \<Rightarrow> string \<Rightarrow> string" where
  "expected_signature w payload =
     ''sha256='' @ hexdigest (hmac_digest w (encode (WEBHOOK_SECRET w)) payload)"

section \<open>A concrete world and concrete deliveries\<close>

text \<open>
  A deployment script that prints both lines the runner looks for and exits 0, a
  GitHub that answers every POST with 201 and a token, a mail relay that accepts
  everything. The digest is a stand-in of two bytes; the theorems below hold for every
  digest function. This world formats no list or dict other than the empty dict.
\<close>

definition example_process :: completed_process where
  "example_process =
     \<lparr>returncode = 0,
      stdout = ''Container name: app-42\<newline>Deployment complete: http://host:8042\<newline>'',
      stderr = []\<rparr>"

definition example_world :: world where
  "example_world =
     \<lparr>WEBHOOK_SECRET = ''s3cret'', APP_ID = ''12345'', private_key = ''PEM'',
      SMTP_SERVER = ''smtp.example.org'', SMTP_PORT = ''587'',
      SMTP_USERNAME = ''bot@example.org'', SMTP_PASSWORD = ''pw'',
      RECIPIENT_EMAIL = ''team@example.org'',
      hmac_digest = (\<lambda>key msg. [char_of (length key), char_of (length msg)]),
      time_now = 1700000000,
      jwt_encode = (\<lambda>payload key alg. Inr ''jwt''),
      py_repr = (\<lambda>v. ''{}''),
      requests_post = (\<lambda>url headers body.
        Inr \<lparr>status_code = 201, json_body = Inr (JObj [(''token'', JStr ''ghs_1'')])\<rparr>),
      open_write = (\<lambda>path. None),
      file_write = (\<lambda>path text. None),
      run_process = (\<lambda>argv. Inr example_process),
      read_file = (\<lambda>path. Inr ''log''),
      smtp_connect = (\<lambda>host port. None),
      smtp_starttls = None,
      smtp_login = (\<lambda>user password. None),
      smtp_sendmail = (\<lambda>sender recipient m. None),
      smtp_quit = None\<rparr>"

text \<open>
  Variations of that world: a GitHub that refuses every POST with 403 and a JSON body;
  a gateway in front of GitHub that answers 502 with a page that is not JSON; a
  deployment script that exits 1; a mail relay that rejects the login.
\<close>

definition refusing_world :: world where
  "refusing_world =
     example_world\<lparr>requests_post := (\<lambda>url headers body.
       Inr \<lparr>status_code = 403, json_body = Inr (JObj [])\<rparr>)\<rparr>"

definition bad_gateway_world :: world where
  "bad_gateway_world =
     example_world\<lparr>requests_post := (\<lambda>url headers body.
       Inr \<lparr>status_code = 502, json_body = Inl JSONDecodeError\<rparr>)\<rparr>"

definition failing_script_world :: world where
  "failing_script_world =
     example_world\<lparr>run_process := (\<lambda>argv.
       Inr \<lparr>returncode = 1, stdout = [], stderr = ''docker: build failed''\<rparr>)\<rparr>"

text \<open>
  A deployment script that exits 0 and prints the container name but no
  \<^verbatim>\<open>Deployment complete\<close> line.
\<close>

definition no_url_world :: world where
  "no_url_world =
     example_world\<lparr>run_process := (\<lambda>argv.
       Inr \<lparr>returncode = 0, stdout = ''Container name: app-42\<newline>'', stderr = []\<rparr>)\<rparr>"

definition rejecting_relay_world :: world where
  "rejecting_relay_world =
     example_world\<lparr>smtp_login := (\<lambda>user password.
       Some (SMTPException ''authentication failed''))\<rparr>"

text \<open>
  A pull-request payload for repository \<^verbatim>\<open>org/app\<close>, pull request 42, branch
  \<^verbatim>\<open>feature-x\<close>, installation 7.
\<close>

definition pull_request_payload :: "string \<Rightarrow> json" where
  "pull_request_payload action =
     JObj [(''action'', JStr action),
           (''pull_request'',
              JObj [(''number'', JInt 42), (''merged'', JBool False),
                    (''head'', JObj [(''ref'', JStr ''feature-x'')])]),
           (''repository'', JObj [(''full_name'', JStr ''org/app'')]),
           (''installation'', JObj [(''id'', JInt 7)])]"

text \<open>
  The same pull request as a repository webhook delivers it, without the
  \<^verbatim>\<open>installation\<close> object that only a GitHub App delivery carries; and a \<^verbatim>\<open>ping\<close>
  payload, which has no \<^verbatim>\<open>pull_request\<close> key.
\<close>

definition repository_hook_payload :: "string \<Rightarrow> json" where
  "repository_hook_payload action =
     JObj [(''action'', JStr action),
           (''pull_request'',
              JObj [(''number'', JInt 42), (''merged'', JBool False),
                    (''head'', JObj [(''ref'', JStr ''feature-x'')])]),
           (''repository'', JObj [(''full_name'', JStr ''org/app'')])]"

definition ping_payload :: json where
  "ping_payload = JObj [(''zen'', JStr ''Keep it logically awesome.''), (''hook_id'', JInt 1)]"

text \<open>The \<^verbatim>\<open>closed\<close> payload of that pull request, merged or not.\<close>

definition closed_payload :: "bool \<Rightarrow> json" where
  "closed_payload merged =
     JObj [(''action'', JStr ''closed''),
           (''pull_request'',
              JObj [(''number'', JInt 42), (''merged'', JBool merged),
                    (''head'', JObj [(''ref'', JStr ''feature-x'')])]),
           (''repository'', JObj [(''full_name'', JStr ''org/app'')]),
           (''installation'', JObj [(''id'', JInt 7)])]"

text \<open>
  A payload with its \<^verbatim>\<open>pull_request.merged\<close> field set to \<open>m\<close> and nothing else changed.
\<close>

fun set_merged_field :: "json \<Rightarrow> json \<Rightarrow> json" where
  "set_merged_field m (JObj fs) = JObj (AList.update ''merged'' m fs)"
| "set_merged_field m v = v"

fun with_merged :: "json \<Rightarrow> json \<Rightarrow> json" where
  "with_merged m (JObj kvs) = JObj (AList.map_entry ''pull_request'' (set_merged_field m) kvs)"
| "with_merged m v = v"

text \<open>A delivery whose header carries the signature of its body.\<close>

definition signed_request :: "world \<Rightarrow> string \<Rightarrow> json \<Rightarrow> request" where
  "signed_request w body j =
     \<lparr>data = body, signature_header = Some (expected_signature w body), json = j\<rparr>"

section \<open>Reasoning about runs\<close>

lemma snd_ret: "snd (ret a) = Inr a"
  by (simp add: ret_def)

lemma fst_ret: "fst (ret a) = []"
  by (simp add: ret_def)

lemma snd_raise: "snd (raise e) = Inl e"
  by (simp add: raise_def)

lemma fst_raise: "fst (raise e) = []"
  by (simp add: raise_def)

lemma snd_perform: "snd (perform x r) = r"
  by (simp add: perform_def)

lemma fst_perform: "fst (perform x r) = [x]"
  by (simp add: perform_def)

lemma snd_pure_call: "snd (pure_call r) = r"
  by (simp add: pure_call_def)

lemma fst_pure_call: "fst (pure_call r) = []"
  by (simp add: pure_call_def)

lemma bind_io_Inl: "snd m = Inl e \<Longrightarrow> bind_io m f = (fst m, Inl e)"
  by (simp add: bind_io_def)

lemma bind_io_Inr: "snd m = Inr a \<Longrightarrow> bind_io m f = (fst m @ fst (f a), snd (f a))"
  by (simp add: bind_io_def)

lemma bind_ret: "bind_io (ret a) f = f a"
  by (simp add: bind_io_def ret_def)

lemma bind_raise: "bind_io (raise e) f = raise e"
  by (simp add: bind_io_def raise_def)

lemma bind_pure_Inr: "bind_io (pure_call (Inr a)) f = f a"
  by (simp add: bind_io_def pure_call_def)

lemma bind_pure_Inl: "bind_io (pure_call (Inl e)) f = raise e"
  by (simp add: bind_io_def pure_call_def raise_def)

lemma bind_perform_Inr: "bind_io (perform x (Inr a)) f = (x # fst (f a), snd (f a))"
  by (simp add: bind_io_def perform_def)

lemma bind_perform_Inl: "bind_io (perform x (Inl e)) f = ([x], Inl e)"
  by (simp add: bind_io_def perform_def)

lemma raises_iff: "raises m \<longleftrightarrow> (\<exists>e. snd m = Inl e)"
  by (cases "snd m") (simp_all add: raises_def)

lemma raises_raise: "raises (raise e)"
  by (simp add: raises_def raise_def)

lemma snd_unbound_name: "snd (unbound_name n) = Inl (NameError n)"
  by (simp add: unbound_name_def raise_def)

lemma fst_unbound_name: "fst (unbound_name n) = []"
  by (simp add: unbound_name_def raise_def)

lemma raises_unbound_name: "raises (unbound_name n)"
  by (simp add: unbound_name_def raises_raise)

lemma raises_bind:
  assumes "\<And>a. snd m = Inr a \<Longrightarrow> raises (f a)"
  shows "raises (bind_io m f)"
proof (cases "snd m")
  case (Inl e)
  then show ?thesis by (simp add: bind_io_Inl raises_def)
next
  case (Inr a)
  with assms [of a] show ?thesis by (simp add: bind_io_Inr raises_def)
qed

lemma raises_bind_first: "raises m \<Longrightarrow> raises (bind_io m f)"
  by (rule raises_bind) (simp add: raises_iff)

lemma raises_try_except:
  assumes "raises body"
    and "\<And>e. case handler e of None \<Rightarrow> True | Some h \<Rightarrow> raises h"
  shows "raises (try_except body handler)"
proof -
  from assms(1) obtain e where e: "snd body = Inl e" by (auto simp: raises_iff)
  show ?thesis
  proof (cases "handler e")
    case None
    with e show ?thesis by (simp add: try_except_def raises_def)
  next
    case (Some h)
    with e assms(2) [of e] show ?thesis by (simp add: try_except_def raises_def)
  qed
qed

section \<open>The signature check\<close>

lemma hex_digit_ascii: "(of_char (hex_digit n) :: nat) < 128"
proof -
  have "hex_digit n \<in> set ''0123456789abcdef''"
    unfolding hex_digit_def by (rule nth_mem) simp
  then show ?thesis by auto
qed

lemma hex_byte_ascii: "is_ascii (hex_byte c)"
  by (simp add: is_ascii_def hex_byte_def hex_digit_ascii)

lemma is_ascii_append: "is_ascii (a @ b) \<longleftrightarrow> is_ascii a \<and> is_ascii b"
  by (simp add: is_ascii_def)

lemma hexdigest_ascii: "is_ascii (hexdigest bs)"
proof (induction bs)
  case Nil
  show ?case by (simp add: hexdigest_def is_ascii_def)
next
  case (Cons b bs)
  have "hexdigest (b # bs) = hex_byte b @ hexdigest bs" by (simp add: hexdigest_def)
  with Cons show ?case by (simp add: is_ascii_append hex_byte_ascii)
qed

lemma expected_signature_ascii: "is_ascii (expected_signature w payload)"
  using hexdigest_ascii [of "hmac_digest w (encode (WEBHOOK_SECRET w)) payload"]
  by (simp add: expected_signature_def is_ascii_def)

lemma expected_signature_nonempty: "expected_signature w payload \<noteq> []"
  by (simp add: expected_signature_def)

lemma verify_signature_Some:
  "s \<noteq> [] \<Longrightarrow> verify_signature w payload (Some s) = compare_digest (expected_signature w payload) s"
  by (simp add: verify_signature_def expected_signature_def)

lemma verify_signature_expected:
  "verify_signature w payload (Some (expected_signature w payload)) = Inr True"
  by (simp add: verify_signature_Some expected_signature_nonempty compare_digest_def
      expected_signature_ascii)

lemma verify_signature_ascii_wrong:
  assumes "is_ascii s" and "s \<noteq> expected_signature w payload"
  shows "verify_signature w payload (Some s) = Inr False"
proof (cases "s = []")
  case True
  then show ?thesis by (simp add: verify_signature_def)
next
  case False
  with assms show ?thesis
    by (auto simp: verify_signature_Some compare_digest_def expected_signature_ascii)
qed

lemma webhook_invalid:
  assumes "verify_signature w (data req) (signature_header req) = Inr False"
  shows "webhook w req = ([], Inr (jsonify_message ''Invalid signature'' 401))"
  using assms by (simp add: webhook_def bind_pure_Inr ret_def)

text \<open>
  The check on the inputs it handles. A header that carries the HMAC-SHA256 of the body
  under the configured secret, written \<^verbatim>\<open>sha256=<hex>\<close>, verifies. A missing header
  does not verify, and neither does an ASCII header that differs from that text. Whenever
  the check answers false, the handler answers 401 with
  \<^verbatim>\<open>{'message': 'Invalid signature'}\<close> and has done nothing else.
\<close>

theorem verify_signature_correct:
  "verify_signature w payload (Some (expected_signature w payload)) = Inr True
   \<and> verify_signature w payload None = Inr False
   \<and> (is_ascii s \<and> s \<noteq> expected_signature w payload
        \<longrightarrow> verify_signature w payload (Some s) = Inr False)
   \<and> (verify_signature w (data req) (signature_header req) = Inr False
        \<longrightarrow> webhook w req = ([], Inr (jsonify_message ''Invalid signature'' 401)))"
  by (simp add: verify_signature_expected verify_signature_ascii_wrong webhook_invalid)
    (simp add: verify_signature_def)

theorem verify_signature_correct_witness:
  "verify_signature example_world ''body'' (Some ''sha256=0000'') = Inr False
   \<and> webhook example_world
        \<lparr>data = ''body'', signature_header = Some ''sha256=0000'',
         json = pull_request_payload ''opened''\<rparr>
       = ([], Inr (JObj [(''message'', JStr ''Invalid signature'')], 401))"
proof -
  let ?req = "\<lparr>data = ''body'', signature_header = Some ''sha256=0000'',
               json = pull_request_payload ''opened''\<rparr>"
  have h: "is_ascii ''sha256=0000'' \<and> ''sha256=0000'' \<noteq> expected_signature example_world ''body''"
    by code_simp
  from verify_signature_correct [of example_world "''body''" "''sha256=0000''" ?req] h
  have v: "verify_signature example_world ''body'' (Some ''sha256=0000'') = Inr False"
    and r: "verify_signature example_world (data ?req) (signature_header ?req) = Inr False
            \<longrightarrow> webhook example_world ?req = ([], Inr (jsonify_message ''Invalid signature'' 401))"
    by blast+
  from v r show ?thesis by (simp add: jsonify_message_def)
qed

text \<open>
  C1, on the code. The header \<^verbatim>\<open>sha256=\<close> followed by the character U+00E9 is not the
  signature of the body. Lines 49-50 let it pass (it is not empty), and at line 52
  \<^verbatim>\<open>hmac.compare_digest\<close> raises \<^verbatim>\<open>TypeError\<close> on a \<^verbatim>\<open>str\<close> with a character outside
  ASCII: the check answers neither true nor false, the exception leaves the view, and
  the reply is Flask's 500 where a wrong ASCII header gets the 401 of lines 83-84.
\<close>

theorem non_ascii_signature_raises:
  "''sha256='' @ [CHR 0xE9] \<noteq> expected_signature example_world ''body''
   \<and> verify_signature example_world ''body'' (Some (''sha256='' @ [CHR 0xE9])) = Inl TypeError
   \<and> webhook example_world
        \<lparr>data = ''body'', signature_header = Some (''sha256='' @ [CHR 0xE9]),
         json = pull_request_payload ''opened''\<rparr>
       = ([], Inl TypeError)
   \<and> http_status
        (webhook example_world
           \<lparr>data = ''body'', signature_header = Some (''sha256='' @ [CHR 0xE9]),
            json = pull_request_payload ''opened''\<rparr>)
       = 500
   \<and> webhook example_world
        \<lparr>data = ''body'', signature_header = Some ''sha256=0000'',
         json = pull_request_payload ''opened''\<rparr>
       = ([], Inr (JObj [(''message'', JStr ''Invalid signature'')], 401))"
  by code_simp

section \<open>The identity assertion\<close>

text \<open>
  C9. At clock reading \<open>t\<close> the token is what the signer returns for the key loaded at
  start-up, algorithm RS256 and a claim set with exactly the keys \<^verbatim>\<open>iat\<close>, \<^verbatim>\<open>exp\<close> and
  \<^verbatim>\<open>iss\<close>: issued at \<open>t\<close>, expiring at \<open>t + 600\<close>, issued by the application identifier.
\<close>

theorem get_jwt_token_claims:
  "\<exists>claims. get_jwt_token w = pure_call (jwt_encode w claims (private_key w) ''RS256'')
     \<and> map fst claims = [''iat'', ''exp'', ''iss'']
     \<and> map_of claims ''iat'' = Some (JInt (time_now w))
     \<and> map_of claims ''exp'' = Some (JInt (time_now w + 600))
     \<and> map_of claims ''iss'' = Some (JStr (APP_ID w))"
  by (rule exI [of _ "[(''iat'', JInt (time_now w)), (''exp'', JInt (time_now w + 600)),
        (''iss'', JStr (APP_ID w))]"]) (simp add: get_jwt_token_def Let_def)

section \<open>Effects and outcomes of the components\<close>


lemma trace_bind:
  assumes "list_all P (fst m)" and "\<And>a. snd m = Inr a \<Longrightarrow> list_all P (fst (f a))"
  shows "list_all P (fst (bind_io m f))"
proof (cases "snd m")
  case (Inl e)
  with assms(1) show ?thesis by (simp add: bind_io_Inl)
next
  case (Inr a)
  with assms(1) assms(2) [of a] show ?thesis by (simp add: bind_io_Inr)
qed

lemma trace_try_except:
  assumes "list_all P (fst body)"
    and "\<And>e. case handler e of None \<Rightarrow> True | Some h \<Rightarrow> list_all P (fst h)"
  shows "list_all P (fst (try_except body handler))"
proof (cases "snd body")
  case (Inr a)
  with assms(1) show ?thesis by (simp add: try_except_def)
next
  case (Inl e)
  show ?thesis
  proof (cases "handler e")
    case None
    with Inl assms(1) show ?thesis by (simp add: try_except_def)
  next
    case (Some h)
    with Inl assms(1) assms(2) [of e] show ?thesis by (simp add: try_except_def)
  qed
qed

lemma trace_perform: "P x \<Longrightarrow> list_all P (fst (perform x r))"
  by (simp add: perform_def)

lemma trace_ret: "list_all P (fst (ret a))"
  by (simp add: ret_def)

lemma trace_raise: "list_all P (fst (raise e))"
  by (simp add: raise_def)

lemma trace_pure_call: "list_all P (fst (pure_call r))"
  by (simp add: pure_call_def)

lemma trace_unbound_name: "list_all P (fst (unbound_name n))"
  by (simp add: unbound_name_def raise_def)

lemma trace_mono: "list_all P t \<Longrightarrow> (\<And>x. P x \<Longrightarrow> Q x) \<Longrightarrow> list_all Q t"
  by (induction t) auto

lemma quiet_simps:
  "quiet (HttpPost url hs None)" "quiet (OpenWrite p)" "quiet (FileWrite p t)"
  "quiet (Subprocess argv r)" "quiet (LogInfo s)" "quiet (LogError s)" "quiet (LogException s e)"
  "quiet (OpenRead p)"
  by (simp_all add: quiet_def)

lemma quiet_start_notice: "quiet x \<Longrightarrow> start_notice x"
  by (simp add: quiet_def start_notice_def)

lemma trace_subprocess_run: "list_all quiet (fst (subprocess_run w args redirect))"
  unfolding subprocess_run_def
  by (cases "arg_strings args")
    (auto intro!: trace_bind trace_perform trace_raise trace_ret simp: quiet_simps)

lemma trace_write_log: "list_all quiet (fst (write_log w p t))"
  by (simp add: write_log_def perform_def quiet_simps)

lemma trace_loggers:
  "list_all quiet (fst (logger_info s))" "list_all quiet (fst (logger_error s))"
  "list_all quiet (fst (logger_exception s e))"
  by (simp_all add: logger_info_def logger_error_def logger_exception_def perform_def quiet_simps)

lemma bind_unbound_name: "bind_io (unbound_name n) k = raise (NameError n)"
  by (simp add: unbound_name_def bind_raise)

lemmas trace_intros = trace_bind trace_perform trace_ret trace_raise trace_pure_call
  trace_unbound_name trace_subprocess_run trace_write_log trace_loggers

lemma trace_run_deployment_script:
  "list_all quiet (fst (run_deployment_script w branch_name pr_number))"
  unfolding run_deployment_script_def Let_def
proof (rule trace_bind, rule trace_perform, rule quiet_simps, rule trace_try_except)
  fix log_file_path
  show "list_all quiet (fst
     (bind_io (subprocess_run w [JStr ''./deploy.sh'', branch_name, JStr (py_str w pr_number)] None)
       (\<lambda>result. bind_io (write_log w log_file_path (stdout result))
         (\<lambda>_. bind_io (logger_info (stdout result))
           (\<lambda>_. bind_io (unbound_name ''comment_url'') (k result))))))" for k :: "completed_process \<Rightarrow> string \<Rightarrow> (string option \<times> string option \<times> string) io"
    by (intro trace_intros quiet_simps) (simp_all add: snd_unbound_name)
next
  fix e :: py_error
  show "case (case e of
           CalledProcessError rc err \<Rightarrow> Some
             (bind_io (write_log w p (m err)) (\<lambda>_.
              bind_io (logger_error (m err)) (\<lambda>_.
              bind_io (unbound_name ''comment_url'') (k err))))
         | _ \<Rightarrow> None) of None \<Rightarrow> True | Some h \<Rightarrow> list_all quiet (fst h)"
    for p m and k :: "string option \<Rightarrow> string \<Rightarrow> (string option \<times> string option \<times> string) io"
    by (cases e) (auto intro!: trace_intros simp: snd_unbound_name)
qed

lemma trace_run_cleanup_script:
  "list_all quiet (fst (run_cleanup_script w branch_name pr_number))"
  unfolding run_cleanup_script_def Let_def
proof (rule trace_bind, rule trace_perform, rule quiet_simps, rule trace_try_except)
  fix log_file_path
  show "list_all quiet (fst
     (bind_io (subprocess_run w [JStr ''./cleanup.sh'', branch_name, JStr (py_str w pr_number)] r)
       (\<lambda>_. bind_io (logger_info m)
           (\<lambda>_. bind_io (unbound_name ''comment_url'') k))))" for r m and k :: "string \<Rightarrow> string io"
    by (intro trace_intros quiet_simps) (simp_all add: snd_unbound_name)
next
  fix e :: py_error
  show "case (case e of
           CalledProcessError rc err \<Rightarrow> Some
             (bind_io (write_log w p (m err)) (\<lambda>_.
              bind_io (logger_error (m err)) (\<lambda>_.
              bind_io (unbound_name ''comment_url'') (k err))))
         | _ \<Rightarrow> None) of None \<Rightarrow> True | Some h \<Rightarrow> list_all quiet (fst h)"
    for p m and k :: "string option \<Rightarrow> string \<Rightarrow> string io"
    by (cases e) (auto intro!: trace_intros simp: snd_unbound_name)
qed

lemma raises_run_deployment_script: "raises (run_deployment_script w branch_name pr_number)"
  unfolding run_deployment_script_def Let_def
proof (rule raises_bind, rule raises_try_except)
  fix log_file_path
  show "raises
     (bind_io (subprocess_run w [JStr ''./deploy.sh'', branch_name, JStr (py_str w pr_number)] None)
       (\<lambda>result. bind_io (write_log w log_file_path (stdout result))
         (\<lambda>_. bind_io (logger_info (stdout result))
           (\<lambda>_. bind_io (unbound_name ''comment_url'') (k result)))))" for k :: "completed_process \<Rightarrow> string \<Rightarrow> (string option \<times> string option \<times> string) io"
    by (intro raises_bind raises_bind_first raises_unbound_name)
next
  fix e :: py_error
  show "case (case e of
           CalledProcessError rc err \<Rightarrow> Some
             (bind_io (write_log w p (m err)) (\<lambda>_.
              bind_io (logger_error (m err)) (\<lambda>_.
              bind_io (unbound_name ''comment_url'') (k err))))
         | _ \<Rightarrow> None) of None \<Rightarrow> True | Some h \<Rightarrow> raises h"
    for p m and k :: "string option \<Rightarrow> string \<Rightarrow> (string option \<times> string option \<times> string) io"
    by (cases e) (simp_all add: raises_bind raises_bind_first raises_unbound_name)
qed

lemma raises_run_cleanup_script: "raises (run_cleanup_script w branch_name pr_number)"
  unfolding run_cleanup_script_def Let_def
proof (rule raises_bind, rule raises_try_except)
  fix log_file_path
  show "raises
     (bind_io (subprocess_run w [JStr ''./cleanup.sh'', branch_name, JStr (py_str w pr_number)] r)
       (\<lambda>_. bind_io (logger_info m)
           (\<lambda>_. bind_io (unbound_name ''comment_url'') k)))" for r m and k :: "string \<Rightarrow> string io"
    by (intro raises_bind raises_bind_first raises_unbound_name)
next
  fix e :: py_error
  show "case (case e of
           CalledProcessError rc err \<Rightarrow> Some
             (bind_io (write_log w p (m err)) (\<lambda>_.
              bind_io (logger_error (m err)) (\<lambda>_.
              bind_io (unbound_name ''comment_url'') (k err))))
         | _ \<Rightarrow> None) of None \<Rightarrow> True | Some h \<Rightarrow> raises h"
    for p m and k :: "string option \<Rightarrow> string \<Rightarrow> string io"
    by (cases e) (simp_all add: raises_bind raises_bind_first raises_unbound_name)
qed

lemma trace_get_jwt_token: "list_all P (fst (get_jwt_token w))"
  by (simp add: get_jwt_token_def Let_def pure_call_def)

lemma trace_raise_for_status: "list_all P (fst (raise_for_status r))"
  by (simp add: raise_for_status_def trace_raise trace_ret)

lemma trace_get_installation_access_token:
  "list_all quiet (fst (get_installation_access_token w installation_id))"
  unfolding get_installation_access_token_def Let_def post_def
  by (intro trace_intros trace_get_jwt_token trace_raise_for_status quiet_simps)

lemma trace_notify_stakeholders:
  assumes "P (HttpPost comment_url (comment_headers w access_token)
                (Some (JObj [(''body'', JStr (comment_text message details))])))"
    and "\<And>s. P (LogError s)"
  shows "list_all P (fst (notify_stakeholders w comment_url message access_token details))"
  unfolding notify_stakeholders_def Let_def post_def logger_error_def
  using assms by (auto intro!: trace_bind trace_perform trace_ret trace_pure_call)

lemma try_except_raises:
  assumes "snd body = Inl e" and "handler e = Some h"
  shows "try_except body handler = (fst body @ fst h, snd h)"
  using assms by (simp add: try_except_def)

lemma deployment_failed_run:
  "deployment_failed e = Some ([LogException ''Deployment failed: '' e],
     Inr (jsonify_message ''Deployment failed'' 500))"
  by (simp add: deployment_failed_def logger_exception_def bind_perform_Inr ret_def)

lemma cleanup_failed_run:
  "cleanup_failed e = Some ([LogException ''Cleanup failed: '' e],
     Inr (jsonify_message ''Cleanup failed'' 500))"
  by (simp add: cleanup_failed_def logger_exception_def bind_perform_Inr ret_def)

lemma try_except_deployment_failed:
  assumes "raises body"
  shows "snd (try_except body deployment_failed) = Inr (jsonify_message ''Deployment failed'' 500)"
proof -
  from assms obtain e where "snd body = Inl e" by (auto simp: raises_iff)
  then show ?thesis by (simp add: try_except_raises [OF _ deployment_failed_run])
qed

lemma try_except_cleanup_failed:
  assumes "raises body"
  shows "snd (try_except body cleanup_failed) = Inr (jsonify_message ''Cleanup failed'' 500)"
proof -
  from assms obtain e where "snd body = Inl e" by (auto simp: raises_iff)
  then show ?thesis by (simp add: try_except_raises [OF _ cleanup_failed_run])
qed

lemma snd_deploy_path:
  "snd (deploy_path w repo_name pr_number branch_name installation_id)
     = Inr (jsonify_message ''Deployment failed'' 500)"
  unfolding deploy_path_def Let_def
  by (intro try_except_deployment_failed raises_bind raises_bind_first raises_run_deployment_script)

lemma snd_cleanup_path:
  "snd (cleanup_path w repo_name pr_number branch_name installation_id)
     = Inr (jsonify_message ''Cleanup failed'' 500)"
  unfolding cleanup_path_def
  by (intro try_except_cleanup_failed raises_bind_first raises_run_cleanup_script)

lemma not_returns: "raises m \<Longrightarrow> snd m = Inr a \<Longrightarrow> False"
  by (auto simp: raises_iff)

lemma trace_deploy_path:
  "list_all start_notice (fst (deploy_path w repo_name pr_number branch_name installation_id))"
  unfolding deploy_path_def Let_def
proof (rule trace_try_except)
  show "list_all start_notice (fst
     (bind_io (get_installation_access_token w installation_id) (\<lambda>access_token.
        bind_io (notify_stakeholders w (u access_token) ''Deployment started for this pull request.''
                   access_token None) (\<lambda>_.
        bind_io (run_deployment_script w branch_name pr_number) (k access_token)))))"
    for u and k :: "json \<Rightarrow> string option \<times> string option \<times> string \<Rightarrow> reply io"
  proof (intro trace_bind)
    show "list_all start_notice (fst (get_installation_access_token w installation_id))"
      by (rule trace_mono [OF trace_get_installation_access_token quiet_start_notice])
  next
    fix a
    show "list_all start_notice
        (fst (notify_stakeholders w (u a) ''Deployment started for this pull request.'' a None))"
      by (rule trace_notify_stakeholders) (simp_all add: start_notice_def comment_text_def)
  next
    show "list_all start_notice (fst (run_deployment_script w branch_name pr_number))"
      by (rule trace_mono [OF trace_run_deployment_script quiet_start_notice])
  next
    fix a r
    assume "snd (run_deployment_script w branch_name pr_number) = Inr r"
    with raises_run_deployment_script [of w branch_name pr_number]
    show "list_all start_notice (fst (k a r))" by (auto dest: not_returns)
  qed
next
  fix e
  show "case deployment_failed e of None \<Rightarrow> True | Some h \<Rightarrow> list_all start_notice (fst h)"
    by (simp add: deployment_failed_run start_notice_def)
qed

lemma trace_cleanup_path:
  "list_all quiet (fst (cleanup_path w repo_name pr_number branch_name installation_id))"
  unfolding cleanup_path_def
proof (rule trace_try_except)
  show "list_all quiet (fst (bind_io (run_cleanup_script w branch_name pr_number) k))"
    for k :: "string \<Rightarrow> reply io"
  proof (intro trace_bind)
    show "list_all quiet (fst (run_cleanup_script w branch_name pr_number))"
      by (rule trace_run_cleanup_script)
  next
    fix r
    assume "snd (run_cleanup_script w branch_name pr_number) = Inr r"
    with raises_run_cleanup_script [of w branch_name pr_number]
    show "list_all quiet (fst (k r))" by (auto dest: not_returns)
  qed
next
  fix e
  show "case cleanup_failed e of None \<Rightarrow> True | Some h \<Rightarrow> list_all quiet (fst h)"
    by (simp add: cleanup_failed_run quiet_simps)
qed

section \<open>The dispatcher on pull-request events\<close>


lemma quiet_trace: "list_all quiet t \<Longrightarrow> filter is_mail t = [] \<and> posted_comments t = []"
  by (induction t) (auto simp: quiet_def posted_comments_def map_filter_simps)

lemma start_notice_trace:
  "list_all start_notice t \<Longrightarrow>
     filter is_mail t = []
     \<and> set (posted_comments t) \<subseteq> {''Deployment started for this pull request.''}"
  by (induction t) (auto simp: start_notice_def posted_comments_def map_filter_simps)

lemma webhook_pull_request:
  assumes "verify_signature w (data req) (signature_header req) = Inr True"
    and "py_in ''pull_request'' (json req)"
    and "py_get (json req) ''action'' = Inr action"
    and "py_path (json req) [''pull_request'', ''number''] = Inr pr_number"
    and "py_path (json req) [''repository'', ''full_name''] = Inr repo_name"
    and "py_path (json req) [''pull_request'', ''head'', ''ref''] = Inr branch_name"
    and "py_path (json req) [''installation'', ''id''] = Inr installation_id"
  shows "webhook w req =
     (if action \<in> set [JStr ''opened'', JStr ''synchronize'', JStr ''reopened'']
      then deploy_path w repo_name pr_number branch_name installation_id
      else if action = JStr ''closed''
      then cleanup_path w repo_name pr_number branch_name installation_id
      else ret (jsonify_message ''No action taken'' 200))"
  unfolding webhook_def using assms by (simp only: bind_pure_Inr if_True if_False not_True_eq_False)

lemma webhook_no_pull_request:
  assumes "verify_signature w (data req) (signature_header req) = Inr True"
    and "json req = JObj kvs"
    and "\<not> py_in ''pull_request'' (json req)"
  shows "webhook w req = ret (jsonify_message ''No action taken'' 200)"
  unfolding webhook_def using assms by (simp add: bind_pure_Inr split: option.splits)

lemma pull_request_eventD:
  assumes "pull_request_event d"
  obtains pr_number repo_name branch_name installation_id where
    "py_in ''pull_request'' d"
    "py_path d [''pull_request'', ''number''] = Inr pr_number"
    "py_path d [''repository'', ''full_name''] = Inr repo_name"
    "py_path d [''pull_request'', ''head'', ''ref''] = Inr branch_name"
    "py_path d [''installation'', ''id''] = Inr installation_id"
proof -
  have ex: "\<not> isl r \<Longrightarrow> \<exists>v. r = Inr v" for r :: "py_error + json"
    by (cases r) simp_all
  from assms show thesis
    unfolding pull_request_event_def by (metis ex that)
qed

text \<open>
  C2. On a validly signed delivery that carries the pull-request keys and whose action
  is \<^verbatim>\<open>opened\<close>, \<^verbatim>\<open>synchronize\<close>, \<^verbatim>\<open>reopened\<close> or \<^verbatim>\<open>closed\<close>: neither script runner
  ever returns a value, whatever the world answers, because each reads the unbound
  names \<^verbatim>\<open>comment_url\<close> and \<^verbatim>\<open>access_token\<close> before it can return; the handler's
  \<^verbatim>\<open>except\<close> clause answers 500 with \<^verbatim>\<open>Deployment failed\<close> (or \<^verbatim>\<open>Cleanup failed\<close> for
  \<^verbatim>\<open>closed\<close>); no step of the SMTP session happens; and the only comment that can have
  been posted is the start notice of the deploy path (none at all for \<^verbatim>\<open>closed\<close>).
\<close>

theorem script_runners_never_return:
  assumes "verify_signature w (data req) (signature_header req) = Inr True"
    and "pull_request_event (json req)"
    and "py_get (json req) ''action'' = Inr action"
    and "action \<in> set [JStr ''opened'', JStr ''synchronize'', JStr ''reopened'', JStr ''closed'']"
  shows "raises (run_deployment_script w branch_name pr_number)
     \<and> raises (run_cleanup_script w branch_name pr_number)
     \<and> snd (webhook w req)
         = Inr (jsonify_message
                  (if action = JStr ''closed'' then ''Cleanup failed'' else ''Deployment failed'') 500)
     \<and> filter is_mail (fst (webhook w req)) = []
     \<and> set (posted_comments (fst (webhook w req)))
         \<subseteq> {''Deployment started for this pull request.''}
     \<and> (action = JStr ''closed'' \<longrightarrow> posted_comments (fst (webhook w req)) = [])"
proof -
  from assms(2) obtain n r b i where f:
    "py_in ''pull_request'' (json req)"
    "py_path (json req) [''pull_request'', ''number''] = Inr n"
    "py_path (json req) [''repository'', ''full_name''] = Inr r"
    "py_path (json req) [''pull_request'', ''head'', ''ref''] = Inr b"
    "py_path (json req) [''installation'', ''id''] = Inr i"
    by (rule pull_request_eventD)
  note d = webhook_pull_request [OF assms(1) f(1) assms(3) f(2-5)]
  have run: "raises (run_deployment_script w branch_name pr_number)
     \<and> raises (run_cleanup_script w branch_name pr_number)"
    by (simp add: raises_run_deployment_script raises_run_cleanup_script)
  show ?thesis
  proof (cases "action = JStr ''closed''")
    case True
    then have w: "webhook w req = cleanup_path w r n b i" using d by simp
    from quiet_trace [OF trace_cleanup_path [of w r n b i]] run True show ?thesis
      by (simp add: w snd_cleanup_path)
  next
    case False
    with assms(4) have w: "webhook w req = deploy_path w r n b i" using d by simp
    from start_notice_trace [OF trace_deploy_path [of w r n b i]] run False show ?thesis
      by (simp add: w snd_deploy_path)
  qed
qed

theorem script_runners_never_return_witness:
  "snd (webhook example_world (signed_request example_world ''body'' (pull_request_payload ''opened'')))
     = Inr (JObj [(''message'', JStr ''Deployment failed'')], 500)
   \<and> posted_comments
        (fst (webhook example_world (signed_request example_world ''body'' (pull_request_payload ''opened''))))
      = [''Deployment started for this pull request.'']
   \<and> filter is_mail
        (fst (webhook example_world (signed_request example_world ''body'' (pull_request_payload ''opened''))))
      = []
   \<and> snd (webhook example_world (signed_request example_world ''body'' (pull_request_payload ''closed'')))
     = Inr (JObj [(''message'', JStr ''Cleanup failed'')], 500)
   \<and> posted_comments
        (fst (webhook example_world (signed_request example_world ''body'' (pull_request_payload ''closed''))))
      = []"
proof -
  let ?o = "signed_request example_world ''body'' (pull_request_payload ''opened'')"
  let ?c = "signed_request example_world ''body'' (pull_request_payload ''closed'')"
  have o1: "verify_signature example_world (data ?o) (signature_header ?o) = Inr True"
    and o2: "pull_request_event (json ?o)"
    and o3: "py_get (json ?o) ''action'' = Inr (JStr ''opened'')"
    and c1: "verify_signature example_world (data ?c) (signature_header ?c) = Inr True"
    and c2: "pull_request_event (json ?c)"
    and c3: "py_get (json ?c) ''action'' = Inr (JStr ''closed'')"
    by code_simp+
  have m: "JStr ''opened'' \<in> set [JStr ''opened'', JStr ''synchronize'', JStr ''reopened'', JStr ''closed'']"
    "JStr ''closed'' \<in> set [JStr ''opened'', JStr ''synchronize'', JStr ''reopened'', JStr ''closed'']"
    by simp_all
  have p: "posted_comments (fst (webhook example_world ?o)) = [''Deployment started for this pull request.'']"
    by code_simp
  from script_runners_never_return [OF o1 o2 o3 m(1)]
       script_runners_never_return [OF c1 c2 c3 m(2)] p
  show ?thesis by (simp add: jsonify_message_def)
qed

section \<open>Deliveries the dispatcher does not act on\<close>


text \<open>
  C7, as the code has it. On a validly signed delivery whose payload is a JSON object,
  the handler answers 200 with \<^verbatim>\<open>No action taken\<close> and touches nothing outside when the
  payload has no \<^verbatim>\<open>pull_request\<close> key, and also when it carries the pull-request keys
  (\<^verbatim>\<open>pull_request.number\<close>, \<^verbatim>\<open>repository.full_name\<close>, \<^verbatim>\<open>pull_request.head.ref\<close>,
  \<^verbatim>\<open>installation.id\<close>) and its action is none of \<^verbatim>\<open>opened\<close>, \<^verbatim>\<open>synchronize\<close>,
  \<^verbatim>\<open>reopened\<close>, \<^verbatim>\<open>closed\<close>.
\<close>

theorem other_events_acknowledged:
  assumes "verify_signature w (data req) (signature_header req) = Inr True"
    and "json req = JObj kvs"
    and "\<not> py_in ''pull_request'' (json req)
         \<or> (pull_request_event (json req)
             \<and> py_get (json req) ''action''
                  \<notin> Inr ` set [JStr ''opened'', JStr ''synchronize'', JStr ''reopened'', JStr ''closed''])"
  shows "webhook w req = ([], Inr (jsonify_message ''No action taken'' 200))"
proof (cases "py_in ''pull_request'' (json req)")
  case False
  with webhook_no_pull_request [OF assms(1,2)] show ?thesis by (simp add: ret_def)
next
  case True
  with assms(3) have ev: "pull_request_event (json req)"
    and act: "py_get (json req) ''action''
       \<notin> Inr ` set [JStr ''opened'', JStr ''synchronize'', JStr ''reopened'', JStr ''closed'']"
    by simp_all
  from assms(2) obtain action where a: "py_get (json req) ''action'' = Inr action"
    by (cases "map_of kvs ''action''") simp_all
  from ev obtain n r b i where f:
    "py_in ''pull_request'' (json req)"
    "py_path (json req) [''pull_request'', ''number''] = Inr n"
    "py_path (json req) [''repository'', ''full_name''] = Inr r"
    "py_path (json req) [''pull_request'', ''head'', ''ref''] = Inr b"
    "py_path (json req) [''installation'', ''id''] = Inr i"
    by (rule pull_request_eventD)
  from act a have "action \<notin> set [JStr ''opened'', JStr ''synchronize'', JStr ''reopened'', JStr ''closed'']"
    by auto
  with webhook_pull_request [OF assms(1) f(1) a f(2-5)] show ?thesis
    by (simp add: ret_def)
qed

theorem other_events_acknowledged_witness:
  "webhook example_world (signed_request example_world ''body'' (pull_request_payload ''labeled''))
     = ([], Inr (JObj [(''message'', JStr ''No action taken'')], 200))
   \<and> webhook example_world (signed_request example_world ''body'' ping_payload)
     = ([], Inr (JObj [(''message'', JStr ''No action taken'')], 200))"
proof -
  let ?l = "signed_request example_world ''body'' (pull_request_payload ''labeled'')"
  let ?p = "signed_request example_world ''body'' ping_payload"
  have l1: "verify_signature example_world (data ?l) (signature_header ?l) = Inr True"
    and p1: "verify_signature example_world (data ?p) (signature_header ?p) = Inr True"
    by code_simp+
  obtain kl where l2: "json ?l = JObj kl"
    by (simp add: signed_request_def pull_request_payload_def)
  obtain kp where p2: "json ?p = JObj kp"
    by (simp add: signed_request_def ping_payload_def)
  have l3: "pull_request_event (json ?l)
      \<and> py_get (json ?l) ''action''
           \<notin> Inr ` set [JStr ''opened'', JStr ''synchronize'', JStr ''reopened'', JStr ''closed'']"
    by code_simp
  have p3: "\<not> py_in ''pull_request'' (json ?p)"
    by code_simp
  from other_events_acknowledged [OF l1 l2 disjI2 [OF l3]]
       other_events_acknowledged [OF p1 p2 disjI1 [OF p3]]
  show ?thesis by (simp add: jsonify_message_def)
qed

text \<open>
  The claim as the specification words it fails on a validly signed pull-request
  delivery without an \<^verbatim>\<open>installation\<close> object, as a repository webhook sends it: the
  action \<^verbatim>\<open>labeled\<close> is none of the four, yet line 92 raises \<^verbatim>\<open>KeyError\<close> before the
  action is looked at, and the reply is Flask's 500.
\<close>

theorem other_events_counterexample:
  "verify_signature example_world ''body'' (Some (expected_signature example_world ''body'')) = Inr True
   \<and> py_get (repository_hook_payload ''labeled'') ''action'' = Inr (JStr ''labeled'')
   \<and> webhook example_world (signed_request example_world ''body'' (repository_hook_payload ''labeled''))
       = ([], Inl (KeyError ''installation''))
   \<and> http_status
        (webhook example_world (signed_request example_world ''body'' (repository_hook_payload ''labeled'')))
       = 500"
  by code_simp

section \<open>The notifier\<close>


lemma notify_stakeholders_run:
  "notify_stakeholders w comment_url message access_token details =
     (case comment_response w comment_url message access_token details of
        Inl e \<Rightarrow> ([comment_post w comment_url message access_token details], Inl e)
      | Inr r \<Rightarrow>
          if status_code r = 201
          then ([comment_post w comment_url message access_token details], Inr ())
          else (case json_body r of
                  Inl e \<Rightarrow> ([comment_post w comment_url message access_token details], Inl e)
                | Inr j \<Rightarrow>
                    ([comment_post w comment_url message access_token details,
                      LogError (''Failed to comment on PR: '' @ py_str w j)], Inr ())))"
  by (simp add: notify_stakeholders_def Let_def post_def comment_post_def comment_response_def
      logger_error_def bind_perform_Inr bind_perform_Inl bind_pure_Inr bind_pure_Inl
      fst_ret snd_ret fst_raise snd_raise fst_perform snd_perform
      split: sum.splits)

text \<open>
  The notifier on each answer. When the POST of a comment is answered with status 201,
  the notifier returns with nothing logged. When it is answered with any other status
  and a body that decodes as JSON, the notifier logs one error record and returns
  without raising. When the POST itself fails, its exception reaches the caller.
\<close>

theorem refused_comment_is_logged:
  "(comment_response w comment_url message access_token details = Inr r \<and> status_code r = 201
      \<longrightarrow> notify_stakeholders w comment_url message access_token details
            = ([comment_post w comment_url message access_token details], Inr ()))
   \<and> (comment_response w comment_url message access_token details = Inr r
        \<and> status_code r \<noteq> 201 \<and> json_body r = Inr j
      \<longrightarrow> notify_stakeholders w comment_url message access_token details
            = ([comment_post w comment_url message access_token details,
                LogError (''Failed to comment on PR: '' @ py_str w j)], Inr ()))
   \<and> (comment_response w comment_url message access_token details = Inl e
      \<longrightarrow> notify_stakeholders w comment_url message access_token details
            = ([comment_post w comment_url message access_token details], Inl e))"
  by (simp add: notify_stakeholders_run)

theorem refused_comment_is_logged_witness:
  "notify_stakeholders refusing_world ''https://api.github.com/repos/org/app/issues/42/comments''
       ''Deployment started for this pull request.'' (JStr ''ghs_1'') None
     = ([HttpPost ''https://api.github.com/repos/org/app/issues/42/comments''
           [(''Authorization'', ''token ghs_1''), (''Accept'', ''application/vnd.github.v3+json'')]
           (Some (JObj [(''body'', JStr ''Deployment started for this pull request.'')])),
         LogError ''Failed to comment on PR: {}''], Inr ())"
proof -
  let ?u = "''https://api.github.com/repos/org/app/issues/42/comments''"
  let ?m = "''Deployment started for this pull request.''"
  let ?r = "\<lparr>status_code = 403, json_body = Inr (JObj [])\<rparr>"
  have h: "comment_response refusing_world ?u ?m (JStr ''ghs_1'') None = Inr ?r
      \<and> status_code ?r \<noteq> 201 \<and> json_body ?r = Inr (JObj [])"
    by (simp add: comment_response_def refusing_world_def)
  have p: "comment_post refusing_world ?u ?m (JStr ''ghs_1'') None
      = HttpPost ?u [(''Authorization'', ''token ghs_1''), (''Accept'', ''application/vnd.github.v3+json'')]
           (Some (JObj [(''body'', JStr ?m)]))"
    and l: "''Failed to comment on PR: '' @ py_str refusing_world (JObj []) = ''Failed to comment on PR: {}''"
    by code_simp+
  from refused_comment_is_logged [of refusing_world ?u ?m "JStr ''ghs_1''" None ?r "JObj []"] h
  have "notify_stakeholders refusing_world ?u ?m (JStr ''ghs_1'') None
      = ([comment_post refusing_world ?u ?m (JStr ''ghs_1'') None,
          LogError (''Failed to comment on PR: '' @ py_str refusing_world (JObj []))], Inr ())"
    by blast
  then show ?thesis by (simp only: p l)
qed

text \<open>
  C6, on the code. The POST of a comment is answered with status 502 and a body that
  is not JSON (a gateway's error page). Line 153 sees a status other than 201 and line
  154 starts to log it, but the log line formats \<^verbatim>\<open>response.json()\<close>, and that call
  raises: nothing is logged and the exception leaves the notifier, where a refusal with
  a JSON body is logged and the notifier returns.
\<close>

theorem non_json_refusal_raises:
  "comment_response bad_gateway_world ''https://api.github.com/repos/org/app/issues/42/comments''
       ''Deployment started for this pull request.'' (JStr ''ghs_1'') None
     = Inr \<lparr>status_code = 502, json_body = Inl JSONDecodeError\<rparr>
   \<and> notify_stakeholders bad_gateway_world
         ''https://api.github.com/repos/org/app/issues/42/comments''
         ''Deployment started for this pull request.'' (JStr ''ghs_1'') None
     = ([HttpPost ''https://api.github.com/repos/org/app/issues/42/comments''
           [(''Authorization'', ''token ghs_1''), (''Accept'', ''application/vnd.github.v3+json'')]
           (Some (JObj [(''body'', JStr ''Deployment started for this pull request.'')]))],
        Inl JSONDecodeError)
   \<and> notify_stakeholders refusing_world
         ''https://api.github.com/repos/org/app/issues/42/comments''
         ''Deployment started for this pull request.'' (JStr ''ghs_1'') None
     = ([HttpPost ''https://api.github.com/repos/org/app/issues/42/comments''
           [(''Authorization'', ''token ghs_1''), (''Accept'', ''application/vnd.github.v3+json'')]
           (Some (JObj [(''body'', JStr ''Deployment started for this pull request.'')])),
         LogError ''Failed to comment on PR: {}''], Inr ())"
  by code_simp

section \<open>The dispatcher's report of a deployment\<close>


lemma fst_bind_io:
  "fst (bind_io m f) = fst m @ (case snd m of Inl e \<Rightarrow> [] | Inr a \<Rightarrow> fst (f a))"
  by (cases "snd m") (simp_all add: bind_io_def)

lemma snd_bind_io:
  "snd (bind_io m f) = (case snd m of Inl e \<Rightarrow> Inl e | Inr a \<Rightarrow> snd (f a))"
  by (cases "snd m") (simp_all add: bind_io_def)

lemma posted_comments_append: "posted_comments (a @ b) = posted_comments a @ posted_comments b"
  by (induction a) (simp_all add: posted_comments_def map_filter_simps split: option.splits)

lemma posted_comments_notify_stakeholders:
  "posted_comments (fst (notify_stakeholders w comment_url message access_token details))
     = [comment_text message details]"
  by (simp add: notify_stakeholders_run comment_post_def posted_comments_def map_filter_simps
      split: sum.splits)

lemma send_email_result:
  "snd (send_email w to_address subject body attachment_path) =
     (case read_file w attachment_path of
        Inl e \<Rightarrow> Inl e
      | Inr content \<Rightarrow>
     (case smtp_connect w (SMTP_SERVER w) (SMTP_PORT w) of
        Some e \<Rightarrow> Inl e
      | None \<Rightarrow>
     (case smtp_starttls w of
        Some e \<Rightarrow> Inl e
      | None \<Rightarrow>
     (case smtp_login w (SMTP_USERNAME w) (SMTP_PASSWORD w) of
        Some e \<Rightarrow> Inl e
      | None \<Rightarrow>
     (case smtp_sendmail w (SMTP_USERNAME w) to_address
             (mime_message w to_address subject body attachment_path content) of
        Some e \<Rightarrow> Inl e
      | None \<Rightarrow> outcome (smtp_quit w))))))"
  by (simp add: send_email_def Let_def snd_bind_io snd_perform outcome_def
      split: sum.splits option.splits)

lemma trace_send_email:
  "list_all (\<lambda>x. comment_of x = None) (fst (send_email w to_address subject body attachment_path))"
  unfolding send_email_def Let_def
  by (intro trace_bind trace_perform) simp_all

lemma posted_comments_none: "list_all (\<lambda>x. comment_of x = None) t \<Longrightarrow> posted_comments t = []"
  by (induction t) (auto simp: posted_comments_def map_filter_simps)

lemma posted_comments_deploy_report:
  "posted_comments (fst (deploy_report w comment_url access_token (container_name, deployment_link, log_file_path)))
     = [deployment_message deployment_link]"
  by (simp add: deploy_report_def fst_bind_io posted_comments_append
      posted_comments_notify_stakeholders comment_text_def fst_ret
      posted_comments_none [OF trace_send_email] posted_comments_def [of "[]"] map_filter_simps
      split: sum.splits)

text \<open>
  The dispatcher's report of a deployment (lines 106-116), taken by itself. Whatever the
  container name, the log path and the world, it posts exactly one comment, chosen by the
  URL field alone: the failure notice for a null URL, the success notice with the link
  for a URL. An output with no \<^verbatim>\<open>Deployment complete: http://...\<close> line yields the null
  URL.
\<close>

theorem final_comment_follows_url:
  "posted_comments (fst (deploy_report w comment_url access_token (container_name, None, log_file_path)))
     = [''Deployment failed. Please check the logs.'']
   \<and> posted_comments
        (fst (deploy_report w comment_url access_token (container_name, Some (c # cs), log_file_path)))
     = [''Deployment successful. [Deployed application]('' @ c # cs @ '').'']
   \<and> (re_search ''Deployment complete: '' ''http://'' out = None
        \<longrightarrow> posted_comments
              (fst (deploy_report w comment_url access_token
                     (re_search ''Container name: '' [] out,
                      re_search ''Deployment complete: '' ''http://'' out, log_file_path)))
            = [''Deployment failed. Please check the logs.''])"
  by (simp add: posted_comments_deploy_report deployment_message_def)

theorem final_comment_follows_url_witness:
  "re_search ''Deployment complete: '' ''http://'' ''Container name: app-42\<newline>'' = None
   \<and> re_search ''Container name: '' [] ''Container name: app-42\<newline>'' = Some ''app-42''
   \<and> posted_comments
        (fst (deploy_report example_world ''https://api.github.com/repos/org/app/issues/42/comments''
               (JStr ''ghs_1'') (Some ''app-42'', None, ''/tmp/deployment_log_feature-x_42.txt'')))
      = [''Deployment failed. Please check the logs.'']"
proof -
  let ?out = "''Container name: app-42\<newline>''"
  have u: "re_search ''Deployment complete: '' ''http://'' ?out = None"
    and c: "re_search ''Container name: '' [] ?out = Some ''app-42''"
    by code_simp+
  from final_comment_follows_url [of example_world
      "''https://api.github.com/repos/org/app/issues/42/comments''" "JStr ''ghs_1''"
      "Some ''app-42''" "''/tmp/deployment_log_feature-x_42.txt''" "CHR ''x''" "[]" ?out] u
  have "posted_comments
        (fst (deploy_report example_world ''https://api.github.com/repos/org/app/issues/42/comments''
               (JStr ''ghs_1'')
               (re_search ''Container name: '' [] ?out,
                re_search ''Deployment complete: '' ''http://'' ?out,
                ''/tmp/deployment_log_feature-x_42.txt'')))
      = [''Deployment failed. Please check the logs.'']"
    by blast
  with u c show ?thesis by simp
qed

section \<open>Mail failures\<close>


lemma http_status_reply: "snd r = Inr (body, code) \<Longrightarrow> http_status r = code"
  by (simp add: http_status_def)

lemma raises_deploy_report:
  assumes "raises (send_email w (RECIPIENT_EMAIL w) ''Deployment Log''
                     ''Please find the attached deployment log.'' log_file_path)"
  shows "raises (deploy_report w comment_url access_token
                   (container_name, deployment_link, log_file_path))"
  unfolding deploy_report_def prod.case
  by (intro raises_bind raises_bind_first assms)

lemma raises_cleanup_report:
  assumes "raises (send_email w (RECIPIENT_EMAIL w) ''Cleanup Log''
                     ''Please find the attached cleanup log.'' log_file_path)"
  shows "raises (cleanup_report w repo_name pr_number installation_id log_file_path)"
  unfolding cleanup_report_def Let_def
  by (intro raises_bind raises_bind_first assms)

lemma http_status_pull_request:
  assumes "verify_signature w (data req) (signature_header req) = Inr True"
    and "pull_request_event (json req)"
    and "py_get (json req) ''action''
           \<in> Inr ` set [JStr ''opened'', JStr ''synchronize'', JStr ''reopened'', JStr ''closed'']"
  shows "http_status (webhook w req) = 500"
proof -
  from assms(3) obtain action where a: "py_get (json req) ''action'' = Inr action"
    and m: "action \<in> set [JStr ''opened'', JStr ''synchronize'', JStr ''reopened'', JStr ''closed'']"
    by auto
  from assms(2) obtain n r b i where f:
    "py_in ''pull_request'' (json req)"
    "py_path (json req) [''pull_request'', ''number''] = Inr n"
    "py_path (json req) [''repository'', ''full_name''] = Inr r"
    "py_path (json req) [''pull_request'', ''head'', ''ref''] = Inr b"
    "py_path (json req) [''installation'', ''id''] = Inr i"
    by (rule pull_request_eventD)
  note d = webhook_pull_request [OF assms(1) f(1) a f(2-5)]
  show ?thesis
  proof (cases "action = JStr ''closed''")
    case True
    with d have "webhook w req = cleanup_path w r n b i" by simp
    then show ?thesis
      by (simp add: http_status_reply [OF snd_cleanup_path [unfolded jsonify_message_def]])
  next
    case False
    with m d have "webhook w req = deploy_path w r n b i" by simp
    then show ?thesis
      by (simp add: http_status_reply [OF snd_deploy_path [unfolded jsonify_message_def]])
  qed
qed

text \<open>
  C5. \<^verbatim>\<open>send_email\<close> has no handler: it raises the exception of the first step that
  fails, be it reading the attachment, the connection, STARTTLS, the login, the send or
  the quit. Under the dispatcher's \<^verbatim>\<open>except\<close> clause a report that cannot send its mail
  becomes the 500 reply, on the deploy path and on the cleanup path. And a validly
  signed deploy or cleanup request ends in 500 (whatever the relay does, since the script
  runner has raised before).
\<close>

theorem mail_failure_is_fatal:
  "snd (send_email w to_address subject body attachment_path) =
     (case read_file w attachment_path of
        Inl e \<Rightarrow> Inl e
      | Inr content \<Rightarrow>
     (case smtp_connect w (SMTP_SERVER w) (SMTP_PORT w) of
        Some e \<Rightarrow> Inl e
      | None \<Rightarrow>
     (case smtp_starttls w of
        Some e \<Rightarrow> Inl e
      | None \<Rightarrow>
     (case smtp_login w (SMTP_USERNAME w) (SMTP_PASSWORD w) of
        Some e \<Rightarrow> Inl e
      | None \<Rightarrow>
     (case smtp_sendmail w (SMTP_USERNAME w) to_address
             (mime_message w to_address subject body attachment_path content) of
        Some e \<Rightarrow> Inl e
      | None \<Rightarrow> outcome (smtp_quit w))))))
   \<and> (raises (send_email w (RECIPIENT_EMAIL w) ''Deployment Log''
                 ''Please find the attached deployment log.'' log_file_path)
      \<longrightarrow> snd (try_except
                 (deploy_report w comment_url access_token
                    (container_name, deployment_link, log_file_path))
                 deployment_failed)
            = Inr (jsonify_message ''Deployment failed'' 500))
   \<and> (raises (send_email w (RECIPIENT_EMAIL w) ''Cleanup Log''
                 ''Please find the attached cleanup log.'' log_file_path)
      \<longrightarrow> snd (try_except
                 (cleanup_report w repo_name pr_number installation_id log_file_path)
                 cleanup_failed)
            = Inr (jsonify_message ''Cleanup failed'' 500))
   \<and> (verify_signature w (data req) (signature_header req) = Inr True
        \<and> pull_request_event (json req)
        \<and> py_get (json req) ''action''
             \<in> Inr ` set [JStr ''opened'', JStr ''synchronize'', JStr ''reopened'', JStr ''closed'']
      \<longrightarrow> http_status (webhook w req) = 500)"
  using send_email_result [of w to_address subject body attachment_path]
    raises_deploy_report [THEN try_except_deployment_failed,
      of w log_file_path comment_url access_token container_name deployment_link]
    raises_cleanup_report [THEN try_except_cleanup_failed,
      of w log_file_path repo_name pr_number installation_id]
    http_status_pull_request [of w req]
  by blast

theorem mail_failure_is_fatal_witness:
  "snd (send_email rejecting_relay_world ''team@example.org'' ''Deployment Log''
          ''Please find the attached deployment log.'' ''/tmp/deployment_log_feature-x_42.txt'')
     = Inl (SMTPException ''authentication failed'')
   \<and> snd (try_except
            (deploy_report rejecting_relay_world
               ''https://api.github.com/repos/org/app/issues/42/comments'' (JStr ''ghs_1'')
               (Some ''app-42'', Some ''http://host:8042'', ''/tmp/deployment_log_feature-x_42.txt''))
            deployment_failed)
     = Inr (JObj [(''message'', JStr ''Deployment failed'')], 500)
   \<and> snd (try_except
            (cleanup_report rejecting_relay_world (JStr ''org/app'') (JInt 42) (JInt 7)
               ''/tmp/cleanup_log_feature-x_42.txt'')
            cleanup_failed)
     = Inr (JObj [(''message'', JStr ''Cleanup failed'')], 500)
   \<and> http_status
        (webhook rejecting_relay_world
           (signed_request rejecting_relay_world ''body'' (pull_request_payload ''opened'')))
     = 500"
proof -
  let ?w = rejecting_relay_world
  let ?req = "signed_request ?w ''body'' (pull_request_payload ''opened'')"
  let ?d = "''/tmp/deployment_log_feature-x_42.txt''"
  let ?c = "''/tmp/cleanup_log_feature-x_42.txt''"
  have r: "RECIPIENT_EMAIL ?w = ''team@example.org''"
    by (simp add: rejecting_relay_world_def example_world_def)
  have s: "snd (send_email ?w ''team@example.org'' ''Deployment Log''
          ''Please find the attached deployment log.'' ?d)
     = Inl (SMTPException ''authentication failed'')"
    by code_simp
  have h1: "raises (send_email ?w (RECIPIENT_EMAIL ?w) ''Deployment Log''
                 ''Please find the attached deployment log.'' ?d)"
    and h2: "raises (send_email ?w (RECIPIENT_EMAIL ?w) ''Cleanup Log''
                 ''Please find the attached cleanup log.'' ?c)"
    and h3: "verify_signature ?w (data ?req) (signature_header ?req) = Inr True
        \<and> pull_request_event (json ?req)
        \<and> py_get (json ?req) ''action''
             \<in> Inr ` set [JStr ''opened'', JStr ''synchronize'', JStr ''reopened'', JStr ''closed'']"
    by code_simp+
  from mail_failure_is_fatal [where w = ?w and log_file_path = ?d and req = ?req
      and comment_url = "''https://api.github.com/repos/org/app/issues/42/comments''"
      and access_token = "JStr ''ghs_1''" and container_name = "Some ''app-42''"
      and deployment_link = "Some ''http://host:8042''"]
    mail_failure_is_fatal [where w = ?w and log_file_path = ?c and repo_name = "JStr ''org/app''"
      and pr_number = "JInt 42" and installation_id = "JInt 7"]
    h1 h2 h3 s
  show ?thesis by (simp add: jsonify_message_def)
qed

section \<open>Runs that the unbound names cut short\<close>


text \<open>
  C3, on the code. The deployment script exits 0 and prints both lines. The runner
  extracts the container name and the URL and builds the five entries, all
  \<^verbatim>\<open>Success\<close>; then line 177 reads \<^verbatim>\<open>comment_url\<close>, the runner raises \<^verbatim>\<open>NameError\<close>,
  and the handler answers 500 \<^verbatim>\<open>Deployment failed\<close>: the table is never posted, no final
  comment carries the URL, no mail is sent.
\<close>

theorem successful_deployment_ends_in_500:
  "run_process example_world [''./deploy.sh'', ''feature-x'', ''42''] = Inr example_process
   \<and> returncode example_process = 0
   \<and> re_search ''Container name: '' [] (stdout example_process) = Some ''app-42''
   \<and> re_search ''Deployment complete: '' ''http://'' (stdout example_process)
       = Some ''http://host:8042''
   \<and> deployment_details example_world (JStr ''feature-x'') (Some ''app-42'') (Some ''http://host:8042'')
       = [(''Clone repository'', ''Success'', Some ''Repository cloned successfully.''),
          (''Checkout branch'', ''Success'', Some ''Checked out branch feature-x.''),
          (''Pull latest changes'', ''Success'', Some ''Pulled latest changes for branch feature-x.''),
          (''Build Docker image'', ''Success'',
             Some ''Docker image built successfully for container app-42.''),
          (''Run Docker container'', ''Success'',
             Some ''Container app-42 running at http://host:8042.'')]
   \<and> run_deployment_script example_world (JStr ''feature-x'') (JInt 42)
       = ([OpenWrite ''/tmp/deployment_log_feature-x_42.txt'',
           Subprocess [''./deploy.sh'', ''feature-x'', ''42''] None,
           FileWrite ''/tmp/deployment_log_feature-x_42.txt''
             ''Container name: app-42\<newline>Deployment complete: http://host:8042\<newline>'',
           LogInfo ''Container name: app-42\<newline>Deployment complete: http://host:8042\<newline>''],
          Inl (NameError ''comment_url''))
   \<and> webhook example_world (signed_request example_world ''body'' (pull_request_payload ''opened''))
       = ([HttpPost ''https://api.github.com/app/installations/7/access_tokens''
             [(''Authorization'', ''Bearer jwt''), (''Accept'', ''application/vnd.github.v3+json'')]
             None,
           HttpPost ''https://api.github.com/repos/org/app/issues/42/comments''
             [(''Authorization'', ''token ghs_1''), (''Accept'', ''application/vnd.github.v3+json'')]
             (Some (JObj [(''body'', JStr ''Deployment started for this pull request.'')])),
           OpenWrite ''/tmp/deployment_log_feature-x_42.txt'',
           Subprocess [''./deploy.sh'', ''feature-x'', ''42''] None,
           FileWrite ''/tmp/deployment_log_feature-x_42.txt''
             ''Container name: app-42\<newline>Deployment complete: http://host:8042\<newline>'',
           LogInfo ''Container name: app-42\<newline>Deployment complete: http://host:8042\<newline>'',
           LogException ''Deployment failed: '' (NameError ''comment_url'')],
          Inr (JObj [(''message'', JStr ''Deployment failed'')], 500))"
  by code_simp

text \<open>
  C4, on the code. The deployment script exits 1. The runner writes the error text to
  the log file and logs it; then line 184 reads \<^verbatim>\<open>comment_url\<close> and the runner raises
  \<^verbatim>\<open>NameError\<close> instead of returning the log path: the handler answers 500, posts no
  failure notice and sends no mail.
\<close>

theorem failed_deployment_ends_in_500:
  "run_process failing_script_world [''./deploy.sh'', ''feature-x'', ''42'']
       = Inr \<lparr>returncode = 1, stdout = [], stderr = ''docker: build failed''\<rparr>
   \<and> run_deployment_script failing_script_world (JStr ''feature-x'') (JInt 42)
       = ([OpenWrite ''/tmp/deployment_log_feature-x_42.txt'',
           Subprocess [''./deploy.sh'', ''feature-x'', ''42''] None,
           FileWrite ''/tmp/deployment_log_feature-x_42.txt''
             ''Deployment script failed with error: docker: build failed'',
           LogError ''Deployment script failed with error: docker: build failed''],
          Inl (NameError ''comment_url''))
   \<and> webhook failing_script_world
         (signed_request failing_script_world ''body'' (pull_request_payload ''opened''))
       = ([HttpPost ''https://api.github.com/app/installations/7/access_tokens''
             [(''Authorization'', ''Bearer jwt''), (''Accept'', ''application/vnd.github.v3+json'')]
             None,
           HttpPost ''https://api.github.com/repos/org/app/issues/42/comments''
             [(''Authorization'', ''token ghs_1''), (''Accept'', ''application/vnd.github.v3+json'')]
             (Some (JObj [(''body'', JStr ''Deployment started for this pull request.'')])),
           OpenWrite ''/tmp/deployment_log_feature-x_42.txt'',
           Subprocess [''./deploy.sh'', ''feature-x'', ''42''] None,
           FileWrite ''/tmp/deployment_log_feature-x_42.txt''
             ''Deployment script failed with error: docker: build failed'',
           LogError ''Deployment script failed with error: docker: build failed'',
           LogException ''Deployment failed: '' (NameError ''comment_url'')],
          Inr (JObj [(''message'', JStr ''Deployment failed'')], 500))"
  by code_simp

text \<open>
  C8, on the code. For the \<^verbatim>\<open>closed\<close> delivery of a merged and of an unmerged pull
  request the run is the same: the cleanup script is started, then line 195 reads
  \<^verbatim>\<open>comment_url\<close>; no token is acquired, \<^verbatim>\<open>Cleanup completed\<close> is not posted, no mail
  is sent; the reply is 500 \<^verbatim>\<open>Cleanup failed\<close>.
\<close>

theorem closed_event_ends_in_500:
  "webhook example_world (signed_request example_world ''body'' (closed_payload True))
       = ([OpenWrite ''/tmp/cleanup_log_feature-x_42.txt'',
           Subprocess [''./cleanup.sh'', ''feature-x'', ''42'']
             (Some ''/tmp/cleanup_log_feature-x_42.txt''),
           LogInfo ''Cleanup script executed successfully.'',
           LogException ''Cleanup failed: '' (NameError ''comment_url'')],
          Inr (JObj [(''message'', JStr ''Cleanup failed'')], 500))
   \<and> webhook example_world (signed_request example_world ''body'' (closed_payload False))
       = webhook example_world (signed_request example_world ''body'' (closed_payload True))"
  by code_simp

text \<open>
  C10, on the code. The deployment script exits 0 and its output has no
  \<^verbatim>\<open>Deployment complete: http://...\<close> line, so the URL extracted at lines 167-169 is
  null. The runner does not return it: line 177 reads \<^verbatim>\<open>comment_url\<close> and raises
  \<^verbatim>\<open>NameError\<close>. Lines 107-111 of the dispatcher are not reached, the failure notice is
  not posted (the start notice is the only comment), and the reply is 500.
\<close>

theorem missing_url_ends_in_500:
  "run_process no_url_world [''./deploy.sh'', ''feature-x'', ''42'']
       = Inr \<lparr>returncode = 0, stdout = ''Container name: app-42\<newline>'', stderr = []\<rparr>
   \<and> re_search ''Deployment complete: '' ''http://'' ''Container name: app-42\<newline>'' = None
   \<and> run_deployment_script no_url_world (JStr ''feature-x'') (JInt 42)
       = ([OpenWrite ''/tmp/deployment_log_feature-x_42.txt'',
           Subprocess [''./deploy.sh'', ''feature-x'', ''42''] None,
           FileWrite ''/tmp/deployment_log_feature-x_42.txt'' ''Container name: app-42\<newline>'',
           LogInfo ''Container name: app-42\<newline>''],
          Inl (NameError ''comment_url''))
   \<and> webhook no_url_world (signed_request no_url_world ''body'' (pull_request_payload ''opened''))
       = ([HttpPost ''https://api.github.com/app/installations/7/access_tokens''
             [(''Authorization'', ''Bearer jwt''), (''Accept'', ''application/vnd.github.v3+json'')]
             None,
           HttpPost ''https://api.github.com/repos/org/app/issues/42/comments''
             [(''Authorization'', ''token ghs_1''), (''Accept'', ''application/vnd.github.v3+json'')]
             (Some (JObj [(''body'', JStr ''Deployment started for this pull request.'')])),
           OpenWrite ''/tmp/deployment_log_feature-x_42.txt'',
           Subprocess [''./deploy.sh'', ''feature-x'', ''42''] None,
           FileWrite ''/tmp/deployment_log_feature-x_42.txt'' ''Container name: app-42\<newline>'',
           LogInfo ''Container name: app-42\<newline>'',
           LogException ''Deployment failed: '' (NameError ''comment_url'')],
          Inr (JObj [(''message'', JStr ''Deployment failed'')], 500))
   \<and> posted_comments
        (fst (webhook no_url_world
                (signed_request no_url_world ''body'' (pull_request_payload ''opened''))))
       = [''Deployment started for this pull request.'']"
  by code_simp

lemma map_of_map_entry_other:
  "k' \<noteq> k \<Longrightarrow> map_of (AList.map_entry k f al) k' = map_of al k'"
  by (simp add: map_of_map_entry)

lemma py_getitem_set_merged_field:
  "k \<noteq> ''merged'' \<Longrightarrow> py_getitem (set_merged_field m v) k = py_getitem v k"
  by (cases v) (simp_all add: update_conv')

lemma py_getitem_with_merged:
  "k \<noteq> ''pull_request'' \<Longrightarrow> py_getitem (with_merged m d) k = py_getitem d k"
  by (cases d) (simp_all add: map_of_map_entry)

lemma py_get_with_merged:
  "k \<noteq> ''pull_request'' \<Longrightarrow> py_get (with_merged m d) k = py_get d k"
  by (cases d) (simp_all add: map_of_map_entry)

lemma py_in_with_merged: "py_in ''pull_request'' (with_merged m d) = py_in ''pull_request'' d"
  by (cases d) (simp_all add: map_of_map_entry split: option.splits)

lemma py_path_pull_request_with_merged:
  assumes "k \<noteq> ''merged''"
  shows "py_path (with_merged m d) (''pull_request'' # k # ks) = py_path d (''pull_request'' # k # ks)"
proof (cases d)
  case (JObj kvs)
  show ?thesis
  proof (cases "map_of kvs ''pull_request''")
    case None
    with JObj show ?thesis by (simp add: map_of_map_entry)
  next
    case (Some pr)
    with JObj assms show ?thesis
      by (simp add: map_of_map_entry py_getitem_set_merged_field)
  qed
qed simp_all

lemma py_path_other_with_merged:
  assumes "k \<noteq> ''pull_request''"
  shows "py_path (with_merged m d) (k # ks) = py_path d (k # ks)"
  using assms by (simp add: py_getitem_with_merged)

text \<open>
  The dispatcher never reads \<^verbatim>\<open>pull_request.merged\<close>: two validly signed deliveries
  whose payloads differ only in that field have the same run and the same reply.
\<close>

lemma webhook_ignores_merged:
  assumes "verify_signature w (data req) (signature_header req) = Inr True"
    and "verify_signature w (data req') (signature_header req') = Inr True"
    and "json req' = with_merged m (json req)"
  shows "webhook w req' = webhook w req"
proof -
  have a: "py_get (json req') ''action'' = py_get (json req) ''action''"
    and i: "py_in ''pull_request'' (json req') = py_in ''pull_request'' (json req)"
    and n: "py_path (json req') [''pull_request'', ''number'']
            = py_path (json req) [''pull_request'', ''number'']"
    and r: "py_path (json req') [''repository'', ''full_name'']
            = py_path (json req) [''repository'', ''full_name'']"
    and b: "py_path (json req') [''pull_request'', ''head'', ''ref'']
            = py_path (json req) [''pull_request'', ''head'', ''ref'']"
    and s: "py_path (json req') [''installation'', ''id'']
            = py_path (json req) [''installation'', ''id'']"
    unfolding assms(3)
    by (simp_all add: py_get_with_merged py_in_with_merged py_path_pull_request_with_merged
        py_path_other_with_merged del: py_path.simps)
  show ?thesis
    unfolding webhook_def assms(1) assms(2) a i n r b s ..
qed

end
